theory Spec2Isabelle
  imports Complex_Main
begin

section \<open>JavaScript string primitives used by the pipeline\<close>

text \<open>
  Strings are character lists. \<open>toLowerCase\<close> is modelled on the ASCII letters, which is
  all that hexadecimal addresses, selectors and the keywords of the classifier contain.
\<close>

definition toLowerCase_char :: "char \<Rightarrow> char" where
  "toLowerCase_char c =
     (case map_of (zip ''ABCDEFGHIJKLMNOPQRSTUVWXYZ'' ''abcdefghijklmnopqrstuvwxyz'') c of
        None \<Rightarrow> c
      | Some l \<Rightarrow> l)"

definition toLowerCase :: "string \<Rightarrow> string" where
  "toLowerCase s = map toLowerCase_char s"

text \<open>\<open>s.includes(needle)\<close>: the needle occurs at some position of \<open>s\<close>.\<close>

fun includes_str :: "string \<Rightarrow> string \<Rightarrow> bool" where
  "includes_str [] needle = (needle = [])"
| "includes_str (c # cs) needle =
     (take (length needle) (c # cs) = needle \<or> includes_str cs needle)"

text \<open>\<open>s.slice(a, b)\<close> and \<open>s.slice(a)\<close> for non-negative indices.\<close>

definition slice :: "nat \<Rightarrow> nat \<Rightarrow> string \<Rightarrow> string" where
  "slice a b s = drop a (take b s)"

definition slice_from :: "nat \<Rightarrow> string \<Rightarrow> string" where
  "slice_from a s = drop a s"

text \<open>
  Truthiness of an optional string: \<open>undefined\<close>, \<open>null\<close> and the empty string are falsy.
  \<open>x || undefined\<close> therefore maps the empty string to \<open>undefined\<close>.
\<close>

definition truthy :: "string option \<Rightarrow> bool" where
  "truthy x = (case x of None \<Rightarrow> False | Some s \<Rightarrow> s \<noteq> [])"

definition or_else :: "string option \<Rightarrow> string option \<Rightarrow> string option" where
  "or_else x y = (if truthy x then x else y)"

definition or_undefined :: "string option \<Rightarrow> string option" where
  "or_undefined x = or_else x None"

text \<open>\<open>bigint.toString()\<close>: the decimal rendering of a non-negative integer.\<close>

definition digit_char :: "nat \<Rightarrow> char" where
  "digit_char d = ''0123456789'' ! d"

fun toString_bigint :: "nat \<Rightarrow> string" where
  "toString_bigint n =
     (if n < 10 then [digit_char n] else toString_bigint (n div 10) @ [digit_char (n mod 10)])"

declare toString_bigint.simps [simp del]


section \<open>Call-data classifier (src/lib/blockchain.ts)\<close>

datatype TransactionType =
    TOKEN_CREATION
  | BUY
  | SELL
  | ADD_LIQUIDITY
  | REMOVE_LIQUIDITY
  | APPROVE
  | TRANSFER
  | UNKNOWN

record MethodInfo =
  sig_name :: string
  sig_type :: TransactionType
  sig_description :: string

definition METHOD_SIGNATURES :: "(string \<times> MethodInfo) list" where
  "METHOD_SIGNATURES =
    [ (''0x0b8c6fec'', \<lparr>sig_name = ''createToken'', sig_type = TOKEN_CREATION,
                        sig_description = ''Create new token''\<rparr>),
      (''0x30f51a46'', \<lparr>sig_name = ''createToken'', sig_type = TOKEN_CREATION,
                        sig_description = ''Create new token''\<rparr>),
      (''0x5a46f06c'', \<lparr>sig_name = ''createLP'', sig_type = ADD_LIQUIDITY,
                        sig_description = ''Add initial liquidity''\<rparr>),
      (''0xe8e33700'', \<lparr>sig_name = ''addLiquidity'', sig_type = ADD_LIQUIDITY,
                        sig_description = ''Add liquidity to pool''\<rparr>),
      (''0xbaa2abde'', \<lparr>sig_name = ''removeLiquidity'', sig_type = REMOVE_LIQUIDITY,
                        sig_description = ''Remove liquidity from pool''\<rparr>),
      (''0xa6f2ae3a'', \<lparr>sig_name = ''buy'', sig_type = BUY,
                        sig_description = ''Buy tokens with AVAX''\<rparr>),
      (''0x7ff36ab5'', \<lparr>sig_name = ''sell'', sig_type = SELL,
                        sig_description = ''Sell tokens for AVAX''\<rparr>),
      (''0x38ed1739'', \<lparr>sig_name = ''swapExactTokensForETH'', sig_type = SELL,
                        sig_description = ''Swap tokens for AVAX''\<rparr>),
      (''0x7c025200'', \<lparr>sig_name = ''swapETHForExactTokens'', sig_type = BUY,
                        sig_description = ''Swap AVAX for tokens''\<rparr>),
      (''0x095ea7b3'', \<lparr>sig_name = ''approve'', sig_type = APPROVE,
                        sig_description = ''Approve token spending''\<rparr>),
      (''0xa9059cbb'', \<lparr>sig_name = ''transfer'', sig_type = TRANSFER,
                        sig_description = ''Transfer tokens''\<rparr>),
      (''0x23b872dd'', \<lparr>sig_name = ''transferFrom'', sig_type = TRANSFER,
                        sig_description = ''Transfer tokens from address''\<rparr>),
      (''0x2e1a7d4d'', \<lparr>sig_name = ''withdraw'', sig_type = SELL,
                        sig_description = ''Withdraw AVAX''\<rparr>),
      (''0xd0e30db0'', \<lparr>sig_name = ''deposit'', sig_type = BUY,
                        sig_description = ''Deposit AVAX''\<rparr>) ]"

text \<open>
  The result of \<open>determineTransactionType\<close>: the object \<open>{type, description, method}\<close>.
\<close>

record TransactionInfo =
  info_type :: TransactionType
  info_description :: string
  info_method :: string

text \<open>
  \<open>determineTransactionType(methodId, value)\<close>. The source receives the value as the decimal
  text of the transaction's \<open>bigint\<close> amount (\<open>tx.value.toString()\<close>) and tests
  \<open>Number(value) / 1e18 > 0\<close>; for the decimal text of an integer that test holds exactly
  when the integer is positive, so the model takes the integer itself. The lookup is the
  table's own entries: selectors are prefixes of hexadecimal call data.
\<close>

definition determineTransactionType :: "string \<Rightarrow> int \<Rightarrow> TransactionInfo" where
  "determineTransactionType methodId val =
     (case map_of METHOD_SIGNATURES methodId of
        Some methodInfo \<Rightarrow>
          \<lparr>info_type = sig_type methodInfo,
           info_description = sig_description methodInfo,
           info_method = sig_name methodInfo\<rparr>
      | None \<Rightarrow>
          (let methodIdLower = toLowerCase methodId in
           if includes_str methodIdLower ''create'' \<or> includes_str methodIdLower ''token''
           then \<lparr>info_type = TOKEN_CREATION,
                 info_description = ''Possible token creation'',
                 info_method = ''unknown_create''\<rparr>
           else if val > 0
           then \<lparr>info_type = BUY,
                 info_description = ''Buy transaction (AVAX sent)'',
                 info_method = ''unknown_buy''\<rparr>
           else \<lparr>info_type = UNKNOWN,
                 info_description = ''Unknown transaction type'',
                 info_method = (if methodId \<noteq> [] then methodId else ''unknown'')\<rparr>))"



section \<open>Decoding of creation call data (src/lib/blockchain.ts)\<close>

record TokenMetadata =
  tm_name :: "string option"
  tm_symbol :: "string option"
  tm_totalSupply :: "string option"
  tm_creator :: "string option"
  tm_tokenAddress :: "string option"

text \<open>
  \<open>decodeAbiParameters\<close> belongs to the library viem, not to the repository. The source
  calls it with two fixed parameter lists, so the library enters the model as the two
  decoders for these lists: each maps the hexadecimal data to the tuple of decoded values,
  or to \<open>None\<close> when the library throws. Numbers are \<open>bigint\<close> values, strings and the
  address are text.
\<close>

type_synonym FormatA = "string \<times> string \<times> nat \<times> nat"

type_synonym FormatB = "nat \<times> nat \<times> nat \<times> nat \<times> string \<times> nat \<times> string \<times> string \<times> nat"

record AbiDecoder =
  decodeFormatA :: "string \<Rightarrow> FormatA option"
  decodeFormatB :: "string \<Rightarrow> FormatB option"

text \<open>
  \<open>decodeTokenCreationData(methodId, input)\<close>: the metadata, or \<open>null\<close> for another selector
  and when decoding throws.
\<close>

definition decodeTokenCreationData :: "AbiDecoder \<Rightarrow> string \<Rightarrow> string \<Rightarrow> TokenMetadata option" where
  "decodeTokenCreationData abi methodId input =
     (if methodId = ''0x0b8c6fec'' then
        (let data = ''0x'' @ slice_from 10 input in
         case decodeFormatA abi data of
           None \<Rightarrow> None
         | Some (name, symbol, totalSupply, taxPercentage) \<Rightarrow>
             Some \<lparr>tm_name = Some name, tm_symbol = Some symbol,
                   tm_totalSupply = Some (toString_bigint totalSupply),
                   tm_creator = None, tm_tokenAddress = None\<rparr>)
      else if methodId = ''0x30f51a46'' then
        (let data = ''0x'' @ slice_from 10 input in
         case decodeFormatB abi data of
           None \<Rightarrow> None
         | Some (param1, param2, param3, param4, creator, param6, name, symbol, totalSupply) \<Rightarrow>
             Some \<lparr>tm_name = Some name, tm_symbol = Some symbol,
                   tm_totalSupply = Some (toString_bigint totalSupply),
                   tm_creator = Some creator, tm_tokenAddress = None\<rparr>)
      else None)"



section \<open>A contract ABI codec for the examples\<close>

text \<open>
  An encoder and a decoder for the two parameter lists, written from the contract ABI
  specification: 32-byte big-endian words, a string as an offset in the head and, at that
  offset, its length followed by its bytes padded to a multiple of 32. They give concrete
  call data and a concrete \<open>AbiDecoder\<close> for the examples. Hexadecimal text is in lower case.
\<close>

definition hexDigits :: "(char \<times> nat) list" where
  "hexDigits =
     [(CHR ''0'', 0), (CHR ''1'', 1), (CHR ''2'', 2), (CHR ''3'', 3), (CHR ''4'', 4),
      (CHR ''5'', 5), (CHR ''6'', 6), (CHR ''7'', 7), (CHR ''8'', 8), (CHR ''9'', 9),
      (CHR ''a'', 10), (CHR ''b'', 11), (CHR ''c'', 12), (CHR ''d'', 13), (CHR ''e'', 14),
      (CHR ''f'', 15)]"

definition hexDigit :: "char \<Rightarrow> nat option" where
  "hexDigit c = map_of hexDigits c"

fun hexPairs :: "string \<Rightarrow> nat list option" where
  "hexPairs [] = Some []"
| "hexPairs [c] = None"
| "hexPairs (a # b # cs) =
     (case (hexDigit a, hexDigit b, hexPairs cs) of
        (Some x, Some y, Some r) \<Rightarrow> Some ((16 * x + y) # r)
      | _ \<Rightarrow> None)"

definition hexToBytes :: "string \<Rightarrow> nat list option" where
  "hexToBytes s = (if take 2 s = ''0x'' then hexPairs (drop 2 s) else None)"

definition bytesToNat :: "nat list \<Rightarrow> nat" where
  "bytesToNat bs = foldl (\<lambda>acc b. 256 * acc + b) 0 bs"

definition readWord :: "nat list \<Rightarrow> nat \<Rightarrow> nat option" where
  "readWord bs pos =
     (if pos + 32 \<le> length bs then Some (bytesToNat (take 32 (drop pos bs))) else None)"

definition readString :: "nat list \<Rightarrow> nat \<Rightarrow> string option" where
  "readString bs pos =
     (case readWord bs pos of
        None \<Rightarrow> None
      | Some off \<Rightarrow>
          (case readWord bs off of
             None \<Rightarrow> None
           | Some len \<Rightarrow>
               if off + 32 + len \<le> length bs
               then Some (map char_of (take len (drop (off + 32) bs)))
               else None))"

definition hexChar :: "nat \<Rightarrow> char" where
  "hexChar d = ''0123456789abcdef'' ! d"

definition bytesToHex :: "nat list \<Rightarrow> string" where
  "bytesToHex bs = concat (map (\<lambda>b. [hexChar (b div 16), hexChar (b mod 16)]) bs)"

definition readAddress :: "nat list \<Rightarrow> nat \<Rightarrow> string option" where
  "readAddress bs pos =
     (if pos + 32 \<le> length bs then Some (''0x'' @ bytesToHex (take 20 (drop (pos + 12) bs)))
      else None)"

definition exampleDecodeA :: "string \<Rightarrow> FormatA option" where
  "exampleDecodeA data =
     Option.bind (hexToBytes data) (\<lambda>bs.
     Option.bind (readString bs 0) (\<lambda>name.
     Option.bind (readString bs 32) (\<lambda>symbol.
     Option.bind (readWord bs 64) (\<lambda>totalSupply.
     Option.bind (readWord bs 96) (\<lambda>taxPercentage.
       Some (name, symbol, totalSupply, taxPercentage))))))"

definition exampleDecodeB :: "string \<Rightarrow> FormatB option" where
  "exampleDecodeB data =
     Option.bind (hexToBytes data) (\<lambda>bs.
     Option.bind (readWord bs 0) (\<lambda>p1.
     Option.bind (readWord bs 32) (\<lambda>p2.
     Option.bind (readWord bs 64) (\<lambda>p3.
     Option.bind (readWord bs 96) (\<lambda>p4.
     Option.bind (readAddress bs 128) (\<lambda>creator.
     Option.bind (readWord bs 160) (\<lambda>p6.
     Option.bind (readString bs 192) (\<lambda>name.
     Option.bind (readString bs 224) (\<lambda>symbol.
     Option.bind (readWord bs 256) (\<lambda>totalSupply.
       Some (p1, p2, p3, p4, creator, p6, name, symbol, totalSupply)))))))))))"

definition exampleAbi :: AbiDecoder where
  "exampleAbi = \<lparr>decodeFormatA = exampleDecodeA, decodeFormatB = exampleDecodeB\<rparr>"

text \<open>The encoder: a word, a padded string, and the two parameter lists.\<close>

fun natToBytes :: "nat \<Rightarrow> nat \<Rightarrow> nat list" where
  "natToBytes 0 n = []"
| "natToBytes (Suc k) n = natToBytes k (n div 256) @ [n mod 256]"

definition encodeWord :: "nat \<Rightarrow> nat list" where
  "encodeWord n = natToBytes 32 n"

definition padded :: "nat \<Rightarrow> nat" where
  "padded len = ((len + 31) div 32) * 32"

definition encodeString :: "string \<Rightarrow> nat list" where
  "encodeString s =
     encodeWord (length s) @ map of_char s @ replicate (padded (length s) - length s) 0"


definition exampleEncodeA :: "string \<Rightarrow> string \<Rightarrow> nat \<Rightarrow> nat \<Rightarrow> string" where
  "exampleEncodeA name symbol totalSupply taxPercentage =
     ''0x'' @ bytesToHex
       (encodeWord 128 @ encodeWord (128 + 32 + padded (length name))
        @ encodeWord totalSupply @ encodeWord taxPercentage
        @ encodeString name @ encodeString symbol)"


text \<open>
  Call data: the selector followed by the encoded parameters without their \<open>0x\<close>.
\<close>

definition callData :: "string \<Rightarrow> string \<Rightarrow> string" where
  "callData selector encoded = selector @ drop 2 encoded"


section \<open>Creator profiles (src/lib/arena-socials.ts)\<close>

text \<open>
  A badge of the identity service. The payload is untyped JSON, so the badge-type code may
  arrive as a number or as text.
\<close>

datatype BadgeCode = CodeNumber int | CodeString string

record ArenaBadge =
  badge_id :: int
  badge_userId :: string
  badgeType :: BadgeCode
  badge_order :: int

record ArenaUserProfile =
  username :: "string option"
  displayName :: "string option"
  bio :: "string option"
  avatar :: "string option"
  twitter :: "string option"
  telegram :: "string option"
  website :: "string option"
  verified :: "bool option"
  followerCount :: "int option"
  twitterFollowerCount :: "int option"
  followingCount :: "int option"
  tokenCount :: "int option"
  joinedAt :: "string option"
  keyPrice :: "string option"
  totalHolders :: "string option"
  volume :: "string option"
  shareSupply :: "int option"
  badges :: "ArenaBadge list option"
  isArenaChampion :: "bool option"


section \<open>Tiering of a creator (src/lib/database-simple.ts, processTokenCreation)\<close>

text \<open>
  The ticket price in whole native-token units, \<open>arenaProfile.keyPrice ?
  Number(arenaProfile.keyPrice) / 1e18 : 0\<close>. The conversion of the price text to a
  floating-point number of whole units is the parameter \<open>avax\<close>: \<open>avax s\<close> is the value of
  \<open>Number(s) / 1e18\<close>, \<open>None\<close> when that is NaN. An absent or empty price text counts as 0.
\<close>

definition ticketPrice :: "(string \<Rightarrow> rat option) \<Rightarrow> ArenaUserProfile \<Rightarrow> rat option" where
  "ticketPrice avax arenaProfile =
     (case keyPrice arenaProfile of
        None \<Rightarrow> Some 0
      | Some s \<Rightarrow> if s = [] then Some 0 else avax s)"

text \<open>\<open>arenaProfile.followerCount || 0\<close>.\<close>

definition followers :: "ArenaUserProfile \<Rightarrow> int" where
  "followers arenaProfile = (case followerCount arenaProfile of None \<Rightarrow> 0 | Some n \<Rightarrow> n)"

text \<open>
  The block "Determine post type" of \<open>processTokenCreation\<close>: the value of the variable
  \<open>postType\<close>. A comparison with NaN is false.
\<close>

definition determinePostType :: "(string \<Rightarrow> rat option) \<Rightarrow> ArenaUserProfile \<Rightarrow> string" where
  "determinePostType avax arenaProfile =
     (if isArenaChampion arenaProfile = Some True then ''champion''
      else if followers arenaProfile \<ge> 5000
              \<or> (case ticketPrice avax arenaProfile of None \<Rightarrow> False | Some p \<Rightarrow> p \<ge> 3 / 2)
           then ''heavy-hitter''
           else ''regular'')"

text \<open>A profile with no field set, the starting point of concrete examples.\<close>

definition emptyProfile :: ArenaUserProfile where
  "emptyProfile =
     \<lparr>username = None, displayName = None, bio = None, avatar = None, twitter = None,
      telegram = None, website = None, verified = None, followerCount = None,
      twitterFollowerCount = None, followingCount = None, tokenCount = None, joinedAt = None,
      keyPrice = None, totalHolders = None, volume = None, shareSupply = None, badges = None,
      isArenaChampion = None\<rparr>"

text \<open>
  The conversion of two price texts used in the examples: 1.5 and 1.4999 whole units,
  written in the smallest unit.
\<close>

definition exampleAvax :: "string \<Rightarrow> rat option" where
  "exampleAvax s =
     (if s = ''1500000000000000000'' then Some (3 / 2)
      else if s = ''1499900000000000000'' then Some (14999 / 10000)
      else None)"


section \<open>The stats stage of profile resolution (fetchArenaUserProfile, step 3)\<close>

text \<open>
  A field of the untyped response: missing, \<open>null\<close>, or a value. Calling \<open>toString()\<close> on
  \<open>null\<close> throws, and the exception is caught by the stage's \<open>catch\<close> block.
\<close>

datatype 'a jsfield = JsUndefined | JsNull | JsValue 'a

record StatsBlock =
  st_keyPrice :: "string jsfield"
  st_volume :: "string jsfield"
  st_supply :: "int jsfield"

text \<open>
  The body of the stats response. Text fields hold the \<open>toString()\<close> rendering of the value
  received. \<open>sd_badges\<close> is \<open>None\<close> when \<open>data.badges\<close> is absent or not an array; an entry
  of the array is \<open>None\<close> when it is \<open>null\<close>.
\<close>

record StatsData =
  sd_totalHolders :: "string jsfield"
  sd_stats :: "StatsBlock option"
  sd_badges :: "ArenaBadge option list option"

text \<open>
  What the request of the stage comes to: \<open>fetchWithRetry\<close> or \<open>response.json()\<close> throws,
  the response is not ok (its status is kept), or it is ok with a body (\<open>None\<close> for a body
  that is \<open>null\<close>).
\<close>

datatype StatsResponse = FetchThrows | HttpError nat | HttpOk "StatsData option"

text \<open>
  The profile object is mutated statement by statement, so an exception leaves the mutations
  made before it: \<open>Threw p\<close> is an exception with the profile as it then is, \<open>Done p\<close> the
  normal end.
\<close>

datatype 'a outcome = Threw 'a | Done 'a

definition and_then :: "'a outcome \<Rightarrow> ('a \<Rightarrow> 'a outcome) \<Rightarrow> 'a outcome" where
  "and_then r f = (case r of Threw p \<Rightarrow> Threw p | Done p \<Rightarrow> f p)"

text \<open>\<open>Number(x)\<close> and \<open>String(x)\<close> of a badge-type code. The conversion of a text to a
  number is the parameter \<open>num\<close> (\<open>None\<close> for NaN).\<close>

definition toString_int :: "int \<Rightarrow> string" where
  "toString_int n = (if n < 0 then CHR ''-'' # toString_bigint (nat (- n)) else toString_bigint (nat n))"

definition Number_code :: "(string \<Rightarrow> rat option) \<Rightarrow> BadgeCode \<Rightarrow> rat option" where
  "Number_code num c = (case c of CodeNumber n \<Rightarrow> Some (of_int n) | CodeString s \<Rightarrow> num s)"

definition String_code :: "BadgeCode \<Rightarrow> string" where
  "String_code c = (case c of CodeNumber n \<Rightarrow> toString_int n | CodeString s \<Rightarrow> s)"

text \<open>
  The two searches for the champion badge: \<open>badge.badgeType === 19 || badge.badgeType === "19"
  || Number(badge.badgeType) === 19\<close>, and \<open>String(badge.badgeType) === "19"\<close>.
\<close>

definition championBadge :: "(string \<Rightarrow> rat option) \<Rightarrow> ArenaBadge list \<Rightarrow> ArenaBadge option" where
  "championBadge num bs =
     find (\<lambda>badge. badgeType badge = CodeNumber 19 \<or> badgeType badge = CodeString ''19''
                    \<or> Number_code num (badgeType badge) = Some 19) bs"

definition championBadgeLoose :: "ArenaBadge list \<Rightarrow> ArenaBadge option" where
  "championBadgeLoose bs = find (\<lambda>badge. String_code (badgeType badge) = ''19'') bs"

text \<open>The statements of the \<open>response.ok\<close> branch, in order.\<close>

definition setTotalHolders :: "StatsData \<Rightarrow> ArenaUserProfile \<Rightarrow> ArenaUserProfile outcome" where
  "setTotalHolders d p =
     (case sd_totalHolders d of
        JsUndefined \<Rightarrow> Done p
      | JsNull \<Rightarrow> Threw p
      | JsValue v \<Rightarrow> Done (p\<lparr>totalHolders := Some v\<rparr>))"

definition setKeyPrice :: "StatsBlock \<Rightarrow> ArenaUserProfile \<Rightarrow> ArenaUserProfile outcome" where
  "setKeyPrice st p =
     (case st_keyPrice st of
        JsUndefined \<Rightarrow> Done p
      | JsNull \<Rightarrow> Threw p
      | JsValue v \<Rightarrow> Done (p\<lparr>keyPrice := Some v\<rparr>))"

definition setVolume :: "StatsBlock \<Rightarrow> ArenaUserProfile \<Rightarrow> ArenaUserProfile outcome" where
  "setVolume st p =
     (case st_volume st of
        JsUndefined \<Rightarrow> Done p
      | JsNull \<Rightarrow> Threw p
      | JsValue v \<Rightarrow> Done (p\<lparr>volume := Some v\<rparr>))"

text \<open>\<open>Number(null)\<close> is 0 and does not throw.\<close>

definition setSupply :: "StatsBlock \<Rightarrow> ArenaUserProfile \<Rightarrow> ArenaUserProfile outcome" where
  "setSupply st p =
     (case st_supply st of
        JsUndefined \<Rightarrow> Done p
      | JsNull \<Rightarrow> Done (p\<lparr>shareSupply := Some 0\<rparr>)
      | JsValue v \<Rightarrow> Done (p\<lparr>shareSupply := Some v\<rparr>))"

definition setStats :: "StatsData \<Rightarrow> ArenaUserProfile \<Rightarrow> ArenaUserProfile outcome" where
  "setStats d p =
     (case sd_stats d of
        None \<Rightarrow> Done p
      | Some st \<Rightarrow> and_then (and_then (setKeyPrice st p) (setVolume st)) (setSupply st))"

text \<open>
  Badge detection. Logging each badge reads its fields, which throws on a \<open>null\<close> entry
  before anything is stored. Without a badge array the flag is set to false.
\<close>

definition detectBadges ::
  "(string \<Rightarrow> rat option) \<Rightarrow> StatsData \<Rightarrow> ArenaUserProfile \<Rightarrow> ArenaUserProfile outcome" where
  "detectBadges num d p =
     (case sd_badges d of
        None \<Rightarrow> Done (p\<lparr>isArenaChampion := Some False\<rparr>)
      | Some entries \<Rightarrow>
          if None \<in> set entries then Threw p
          else (let bs = map the entries
                in Done (p\<lparr>badges := Some bs,
                           isArenaChampion :=
                             Some (championBadge num bs \<noteq> None \<or> championBadgeLoose bs \<noteq> None)\<rparr>)))"

definition statsBody ::
  "(string \<Rightarrow> rat option) \<Rightarrow> StatsData option \<Rightarrow> ArenaUserProfile \<Rightarrow> ArenaUserProfile outcome" where
  "statsBody num body p =
     (case body of
        None \<Rightarrow> Threw p
      | Some d \<Rightarrow> and_then (and_then (setTotalHolders d p) (setStats d)) (detectBadges num d))"

text \<open>
  Step 3 of \<open>fetchArenaUserProfile\<close> with the values of its local variables \<open>profile\<close>,
  \<open>handle\<close> and \<open>userId\<close> after step 2: the value of \<open>profile\<close> when the step is over.
\<close>

definition setNotChampion :: "ArenaUserProfile option \<Rightarrow> ArenaUserProfile option" where
  "setNotChampion profile = map_option (\<lambda>p. p\<lparr>isArenaChampion := Some False\<rparr>) profile"

definition fetchArenaUserProfile_step3 ::
  "(string \<Rightarrow> rat option) \<Rightarrow> ArenaUserProfile option \<Rightarrow> string option \<Rightarrow> string option
     \<Rightarrow> StatsResponse \<Rightarrow> ArenaUserProfile option" where
  "fetchArenaUserProfile_step3 num profile handle userId response =
     (if truthy userId then
        (case response of
           FetchThrows \<Rightarrow> setNotChampion profile
         | HttpError status \<Rightarrow> setNotChampion profile
         | HttpOk body \<Rightarrow>
             (let p0 = (case profile of
                          None \<Rightarrow> emptyProfile\<lparr>username := or_else handle userId,
                                                displayName := or_else handle userId\<rparr>
                        | Some p \<Rightarrow> p)
              in case statsBody num body p0 of
                   Threw p \<Rightarrow> Some (p\<lparr>isArenaChampion := Some False\<rparr>)
                 | Done p \<Rightarrow> Some p))
      else setNotChampion profile)"

text \<open>
  The statement of the champion flag in the words of the specification. A badge-type code
  equals 19, tolerantly, when it is the number 19, the text \<open>19\<close>, or a text that denotes
  the number 19.
\<close>

definition codeEquals19 :: "(string \<Rightarrow> rat option) \<Rightarrow> BadgeCode \<Rightarrow> bool" where
  "codeEquals19 num c =
     (case c of CodeNumber n \<Rightarrow> n = 19 | CodeString s \<Rightarrow> s = ''19'' \<or> num s = Some 19)"

text \<open>The stage completes when the response is ok and no statement of its body throws.\<close>

definition statsCompletes :: "StatsResponse \<Rightarrow> bool" where
  "statsCompletes response =
     (case response of
        HttpOk (Some d) \<Rightarrow>
          sd_totalHolders d \<noteq> JsNull
          \<and> (case sd_stats d of None \<Rightarrow> True
               | Some st \<Rightarrow> st_keyPrice st \<noteq> JsNull \<and> st_volume st \<noteq> JsNull)
          \<and> (case sd_badges d of None \<Rightarrow> True | Some entries \<Rightarrow> None \<notin> set entries)
      | _ \<Rightarrow> False)"

definition returnedBadges :: "StatsResponse \<Rightarrow> ArenaBadge list option" where
  "returnedBadges response =
     (case response of
        HttpOk (Some d) \<Rightarrow> map_option (map the) (sd_badges d)
      | _ \<Rightarrow> None)"

definition championExpected :: "(string \<Rightarrow> rat option) \<Rightarrow> StatsResponse \<Rightarrow> bool" where
  "championExpected num response =
     (statsCompletes response
      \<and> (case returnedBadges response of
            None \<Rightarrow> False
          | Some bs \<Rightarrow> list_ex (\<lambda>b. codeEquals19 num (badgeType b)) bs))"

text \<open>
  Concrete responses for the examples: a body whose badge list holds the champion code as
  text, a body without a badge array, and a profile as step 2 leaves it.
\<close>

definition exampleNum :: "string \<Rightarrow> rat option" where
  "exampleNum s = (if s = ''19'' then Some 19 else None)"

definition championBody :: StatsData where
  "championBody =
     \<lparr>sd_totalHolders = JsValue ''12'', sd_stats = None,
      sd_badges = Some [Some \<lparr>badge_id = 1, badge_userId = ''u1'', badgeType = CodeNumber 3,
                               badge_order = 0\<rparr>,
                        Some \<lparr>badge_id = 2, badge_userId = ''u1'', badgeType = CodeString ''19'',
                               badge_order = 1\<rparr>]\<rparr>"

definition noBadgesBody :: StatsData where
  "noBadgesBody = \<lparr>sd_totalHolders = JsUndefined, sd_stats = None, sd_badges = None\<rparr>"

definition aliceProfile :: ArenaUserProfile where
  "aliceProfile = emptyProfile\<lparr>username := Some ''alice'', displayName := Some ''Alice''\<rparr>"


section \<open>Classified events and the chain poller (src/lib/blockchain.ts)\<close>

text \<open>The creator profile attached to an event once it is fetched.\<close>

record CreatorProfile =
  cp_address :: string
  cp_arenaProfile :: "ArenaUserProfile option"
  cp_isLoading :: "bool option"

text \<open>
  \<open>ContractTransaction\<close>, the classified event. The value is the integer whose decimal
  text the source stores.
\<close>

record ContractTransaction =
  ct_hash :: string
  ct_from :: string
  ct_to :: "string option"
  ct_value :: int
  ct_blockNumber :: int
  ct_timestamp :: "int option"
  ct_method :: "string option"
  ct_methodId :: "string option"
  ct_transactionType :: TransactionType
  ct_isTokenCreation :: "bool option"
  ct_description :: string
  ct_tokenMetadata :: "TokenMetadata option"
  ct_creatorProfile :: "CreatorProfile option"
  ct_rawInput :: "string option"
  ct_tokenAddress :: "string option"

text \<open>A transaction and a block as the chain client returns them.\<close>

record ChainTx =
  tx_hash :: string
  tx_from :: string
  tx_to :: "string option"
  tx_value :: int
  tx_input :: string

record Block =
  blk_number :: int
  blk_timestamp :: int
  blk_transactions :: "ChainTx list"

definition ARENA_CONTRACT_ADDRESS :: string where
  "ARENA_CONTRACT_ADDRESS = ''0x8315f1eb449Dd4B779495C3A0b05e5d194446c6e''"

text \<open>\<open>tx.to?.toLowerCase() === ARENA_CONTRACT_ADDRESS.toLowerCase()\<close>.\<close>

definition toTrackedContract :: "ChainTx \<Rightarrow> bool" where
  "toTrackedContract tx =
     (case tx_to tx of
        None \<Rightarrow> False
      | Some a \<Rightarrow> toLowerCase a = toLowerCase ARENA_CONTRACT_ADDRESS)"

text \<open>
  What the poller schedules for later: \<open>notifyCallbacks(contractTx)\<close>, which runs on a
  timer, and \<open>fetchCreatorProfile(tx.from)\<close>, whose completion notifies again.
\<close>

datatype Scheduled =
    NotifyCallbacks ContractTransaction
  | FetchCreatorProfile string ContractTransaction

text \<open>The event object built for a transaction of a block.\<close>

definition contractTxOf :: "AbiDecoder \<Rightarrow> Block \<Rightarrow> ChainTx \<Rightarrow> ContractTransaction" where
  "contractTxOf abi block tx =
     (let methodId = slice 0 10 (tx_input tx);
          transactionInfo = determineTransactionType methodId (tx_value tx);
          tokenMetadata = (if info_type transactionInfo = TOKEN_CREATION
                           then decodeTokenCreationData abi methodId (tx_input tx)
                           else None)
      in \<lparr>ct_hash = tx_hash tx,
          ct_from = tx_from tx,
          ct_to = tx_to tx,
          ct_value = tx_value tx,
          ct_blockNumber = blk_number block,
          ct_timestamp = Some (blk_timestamp block * 1000),
          ct_method = Some (info_method transactionInfo),
          ct_methodId = Some methodId,
          ct_transactionType = info_type transactionInfo,
          ct_isTokenCreation = Some (info_type transactionInfo = TOKEN_CREATION),
          ct_description = info_description transactionInfo,
          ct_tokenMetadata = tokenMetadata,
          ct_creatorProfile = None,
          ct_rawInput = Some (tx_input tx),
          ct_tokenAddress = None\<rparr>)"

text \<open>
  The body of the loop over the transactions of a block in \<open>monitorContract\<close>: a
  transaction to another address is skipped, and so is one whose kind is not TOKEN_CREATION
  ("Only process token creations for real-time monitoring").
\<close>

definition handleTransaction :: "AbiDecoder \<Rightarrow> Block \<Rightarrow> ChainTx \<Rightarrow> Scheduled list" where
  "handleTransaction abi block tx =
     (if toTrackedContract tx then
        (let methodId = slice 0 10 (tx_input tx);
             transactionInfo = determineTransactionType methodId (tx_value tx)
         in if info_type transactionInfo \<noteq> TOKEN_CREATION then []
            else (let contractTx = contractTxOf abi block tx
                  in [NotifyCallbacks contractTx, FetchCreatorProfile (tx_from tx) contractTx]))
      else [])"

definition processBlock :: "AbiDecoder \<Rightarrow> Block \<Rightarrow> Scheduled list" where
  "processBlock abi block = concat (map (handleTransaction abi block) (blk_transactions block))"

text \<open>
  The monitoring state, and one run of \<open>monitorContract\<close>. \<open>latest\<close> is the answer of
  \<open>getBlockNumber\<close> and \<open>getBlock n\<close> that of fetching block \<open>n\<close>; \<open>None\<close> stands for an
  exception, which is caught: for a block, the block is skipped. The run returns the new
  state and what it scheduled; \<open>timerArmed\<close> says that the next run is scheduled.
\<close>

record 'cb MonitoringState =
  isMonitoring :: bool
  lastProcessedBlock :: int
  monitoringCallbacks :: "'cb list"
  timerArmed :: bool

definition newBlocks :: "AbiDecoder \<Rightarrow> (int \<Rightarrow> Block option) \<Rightarrow> int \<Rightarrow> int \<Rightarrow> Scheduled list" where
  "newBlocks abi getBlock lastBlock latestBlock =
     concat (map (\<lambda>blockNum. case getBlock blockNum of
                               None \<Rightarrow> []
                             | Some block \<Rightarrow> processBlock abi block)
                 [lastBlock + 1 .. latestBlock])"

definition monitorContract ::
  "AbiDecoder \<Rightarrow> int option \<Rightarrow> (int \<Rightarrow> Block option) \<Rightarrow> 'cb MonitoringState
     \<Rightarrow> 'cb MonitoringState \<times> Scheduled list" where
  "monitorContract abi latest getBlock st =
     (if \<not> isMonitoring st then (st, [])
      else case latest of
        None \<Rightarrow> (st\<lparr>timerArmed := True\<rparr>, [])
      | Some latestBlock \<Rightarrow>
          if lastProcessedBlock st = 0
          then (st\<lparr>lastProcessedBlock := latestBlock - 1, timerArmed := True\<rparr>, [])
          else if latestBlock > lastProcessedBlock st
          then (st\<lparr>lastProcessedBlock := latestBlock, timerArmed := True\<rparr>,
                newBlocks abi getBlock (lastProcessedBlock st) latestBlock)
          else (st\<lparr>timerArmed := True\<rparr>, []))"

text \<open>
  The timer body of \<open>notifyCallbacks\<close>: every subscriber is called with the event (an
  exception of a callback is caught and does not stop the others), then a token creation is
  handed to \<open>processTokenCreation\<close>.
\<close>

datatype 'cb Effect =
    Deliver 'cb ContractTransaction
  | ProcessTokenCreation ContractTransaction

definition notifyCallbacks :: "'cb list \<Rightarrow> ContractTransaction \<Rightarrow> 'cb Effect list" where
  "notifyCallbacks callbacks transaction =
     map (\<lambda>callback. Deliver callback transaction) callbacks
     @ (if ct_isTokenCreation transaction = Some True then [ProcessTokenCreation transaction]
        else [])"

text \<open>
  The completion of \<open>fetchCreatorProfile\<close>: the profile, or \<open>null\<close> after an error, is
  attached to the event and the subscribers are notified again.
\<close>

definition profileFetched :: "ArenaUserProfile option \<Rightarrow> string \<Rightarrow> ContractTransaction \<Rightarrow> Scheduled list" where
  "profileFetched arenaProfile address contractTx =
     [NotifyCallbacks
        (contractTx\<lparr>ct_creatorProfile :=
           Some \<lparr>cp_address = address, cp_arenaProfile = arenaProfile,
                  cp_isLoading = Some False\<rparr>\<rparr>)]"

text \<open>Concrete blocks for the examples: a purchase and a token creation sent to the contract.\<close>

definition buyTx :: ChainTx where
  "buyTx = \<lparr>tx_hash = ''0xb1'', tx_from = ''0xabc'',
            tx_to = Some ''0x8315F1EB449DD4B779495C3A0B05E5D194446C6E'',
            tx_value = 1000000000000000000, tx_input = ''0xa6f2ae3a''\<rparr>"

definition createTx :: ChainTx where
  "createTx = \<lparr>tx_hash = ''0xc1'', tx_from = ''0xabc'',
               tx_to = Some ''0x8315f1eb449Dd4B779495C3A0b05e5d194446c6e'',
               tx_value = 0,
               tx_input = callData ''0x0b8c6fec'' (exampleEncodeA ''MyToken'' ''MYT'' 1000 10)\<rparr>"

definition exampleBlock :: "ChainTx list \<Rightarrow> Block" where
  "exampleBlock txs = \<lparr>blk_number = 11, blk_timestamp = 1700000000, blk_transactions = txs\<rparr>"

definition runningState :: "nat MonitoringState" where
  "runningState = \<lparr>isMonitoring = True, lastProcessedBlock = 10, monitoringCallbacks = [1, 2],
                    timerArmed = False\<rparr>"


text \<open>A chain on which every block number answers with the same block.\<close>

definition oneBlockChain :: "Block \<Rightarrow> int \<Rightarrow> Block option" where
  "oneBlockChain block blockNum = Some block"


section \<open>The creators table (src/lib/database-simple.ts)\<close>

record ContractTicker =
  tk_symbol :: string
  tk_name :: "string option"
  tk_address :: "string option"
  tk_transaction_hash :: "string option"
  tk_created_at :: int

record Creator =
  creator_id :: string
  wallet_address :: string
  contracts_created :: int
  contract_tickers :: "ContractTicker list option"
  first_seen_at :: int
  last_contract_at :: "int option"

text \<open>The table \<open>creators\<close>, keyed by its unique column \<open>wallet_address\<close>.\<close>

type_synonym CreatorsTable = "string \<rightharpoonup> Creator"

text \<open>
  What the store answers during one call of \<open>addCreatorContract\<close>: the clock, whether the
  select fails with an error other than "no rows" (PGRST116), whether the insert or update
  fails, and the id the store gives a new row.
\<close>

record CreatorIO =
  io_now :: int
  io_selectError :: bool
  io_writeError :: bool
  io_newId :: string

text \<open>\<open>creator.contract_tickers || []\<close>.\<close>

definition existingTickers :: "Creator \<Rightarrow> ContractTicker list" where
  "existingTickers creator = (case contract_tickers creator of None \<Rightarrow> [] | Some ts \<Rightarrow> ts)"

text \<open>
  \<open>addCreatorContract(walletAddress, symbol, name, address, transactionHash)\<close> returns the
  creator's id, or \<open>null\<close> on any error, and leaves the new state of the table.
\<close>

definition addCreatorContract ::
  "CreatorIO \<Rightarrow> string \<Rightarrow> string \<Rightarrow> string option \<Rightarrow> string option \<Rightarrow> string option
     \<Rightarrow> CreatorsTable \<Rightarrow> string option \<times> CreatorsTable" where
  "addCreatorContract io walletAddress symbol name address transactionHash tbl =
     (let ticker = \<lparr>tk_symbol = symbol, tk_name = name, tk_address = address,
                     tk_transaction_hash = transactionHash, tk_created_at = io_now io\<rparr>
      in if io_selectError io then (None, tbl)
         else case tbl walletAddress of
           None \<Rightarrow>
             if io_writeError io then (None, tbl)
             else (Some (io_newId io),
                   tbl(walletAddress \<mapsto>
                     \<lparr>creator_id = io_newId io, wallet_address = walletAddress,
                      contracts_created = 1, contract_tickers = Some [ticker],
                      first_seen_at = io_now io, last_contract_at = Some (io_now io)\<rparr>))
         | Some creator \<Rightarrow>
             (let tickerExists = (\<exists>t \<in> set (existingTickers creator). tk_symbol t = symbol);
                  tickers = (if \<not> tickerExists then existingTickers creator @ [ticker]
                             else existingTickers creator)
              in if io_writeError io then (None, tbl)
                 else (Some (creator_id creator),
                       tbl(walletAddress \<mapsto>
                         creator\<lparr>contracts_created := contracts_created creator + 1,
                                 contract_tickers := Some tickers,
                                 last_contract_at := Some (io_now io)\<rparr>))))"

text \<open>\<open>getCreator(walletAddress)\<close>: the row, or \<open>null\<close> when there is none or on an error.\<close>

definition getCreator :: "bool \<Rightarrow> string \<Rightarrow> CreatorsTable \<Rightarrow> Creator option" where
  "getCreator selectError walletAddress tbl = (if selectError then None else tbl walletAddress)"

text \<open>A sequence of \<open>addCreatorContract\<close> calls, each with the store's answers for it.\<close>

record AddCall =
  call_io :: CreatorIO
  call_wallet :: string
  call_symbol :: string
  call_name :: "string option"
  call_address :: "string option"
  call_hash :: "string option"

fun addCreatorContracts :: "AddCall list \<Rightarrow> CreatorsTable \<Rightarrow> CreatorsTable" where
  "addCreatorContracts [] tbl = tbl"
| "addCreatorContracts (c # cs) tbl =
     addCreatorContracts cs
       (snd (addCreatorContract (call_io c) (call_wallet c) (call_symbol c) (call_name c)
               (call_address c) (call_hash c) tbl))"

text \<open>The ticker list of a wallet's record; empty when there is no record.\<close>

definition tickersOf :: "CreatorsTable \<Rightarrow> string \<Rightarrow> ContractTicker list" where
  "tickersOf tbl w = (case tbl w of None \<Rightarrow> [] | Some creator \<Rightarrow> existingTickers creator)"

text \<open>
  Concrete calls for the examples: a store that answers without error, and two creations by
  the same wallet that carry the same transaction hash and different symbols.
\<close>

definition io0 :: CreatorIO where
  "io0 = \<lparr>io_now = 0, io_selectError = False, io_writeError = False, io_newId = ''c1''\<rparr>"

definition callA :: AddCall where
  "callA = \<lparr>call_io = io0, call_wallet = ''0xabc'', call_symbol = ''AAA'', call_name = None,
             call_address = None, call_hash = Some ''0xh1''\<rparr>"

definition callB :: AddCall where
  "callB = \<lparr>call_io = io0, call_wallet = ''0xabc'', call_symbol = ''BBB'', call_name = None,
             call_address = None, call_hash = Some ''0xh1''\<rparr>"


section \<open>The post caches (src/lib/database-simple.ts)\<close>

record PostCacheEntry =
  posted :: bool
  timestamp :: int
  postType :: string

type_synonym PostCache = "string \<rightharpoonup> PostCacheEntry"

definition CACHE_DURATION :: int where
  "CACHE_DURATION = 24 * 60 * 60 * 1000"

definition createArenaPostCacheKey :: "string \<Rightarrow> string \<Rightarrow> string \<Rightarrow> string" where
  "createArenaPostCacheKey transactionHash walletAddress symbol =
     ''arena-post-'' @ transactionHash @ ''-'' @ toLowerCase walletAddress @ ''-''
       @ toLowerCase symbol"

definition createDiscordPostCacheKey :: "string \<Rightarrow> string \<Rightarrow> string \<Rightarrow> string" where
  "createDiscordPostCacheKey transactionHash walletAddress symbol =
     ''discord-post-'' @ transactionHash @ ''-'' @ toLowerCase walletAddress @ ''-''
       @ toLowerCase symbol"

text \<open>
  \<open>wasArenaPostAlreadySent(cacheKey)\<close> at clock \<open>now\<close>: the answer and the cache, from which
  an expired entry is deleted.
\<close>

definition wasArenaPostAlreadySent :: "int \<Rightarrow> string \<Rightarrow> PostCache \<Rightarrow> bool \<times> PostCache" where
  "wasArenaPostAlreadySent now cacheKey cache =
     (case cache cacheKey of
        None \<Rightarrow> (False, cache)
      | Some cached \<Rightarrow>
          (let isValid = (now - timestamp cached < CACHE_DURATION)
           in if \<not> isValid then (False, cache(cacheKey := None))
              else (posted cached, cache)))"

definition wasDiscordPostAlreadySent :: "int \<Rightarrow> string \<Rightarrow> PostCache \<Rightarrow> bool \<times> PostCache" where
  "wasDiscordPostAlreadySent now cacheKey cache =
     (case cache cacheKey of
        None \<Rightarrow> (False, cache)
      | Some cached \<Rightarrow>
          (let isValid = (now - timestamp cached < CACHE_DURATION)
           in if \<not> isValid then (False, cache(cacheKey := None))
              else (posted cached, cache)))"

definition markArenaPostAsSent :: "int \<Rightarrow> string \<Rightarrow> string \<Rightarrow> PostCache \<Rightarrow> PostCache" where
  "markArenaPostAsSent now cacheKey pt cache =
     cache(cacheKey \<mapsto> \<lparr>posted = True, timestamp = now, postType = pt\<rparr>)"

definition markDiscordPostAsSent :: "int \<Rightarrow> string \<Rightarrow> string \<Rightarrow> PostCache \<Rightarrow> PostCache" where
  "markDiscordPostAsSent now cacheKey pt cache =
     cache(cacheKey \<mapsto> \<lparr>posted = True, timestamp = now, postType = pt\<rparr>)"


section \<open>The transactions table and the state of the dispatcher\<close>

text \<open>
  A row of \<open>contract_transactions\<close>, keyed by its unique column \<open>hash\<close>. Only the columns
  that \<open>processTokenCreation\<close> reads are kept: the id and the two posted flags, which may be
  \<open>null\<close>.
\<close>

record TxRow =
  row_id :: string
  posted_to_arena :: "bool option"
  posted_to_discord :: "bool option"

type_synonym TxTable = "string \<rightharpoonup> TxRow"

text \<open>
  \<open>saveContractTransaction(transaction)\<close>: an upsert on \<open>hash\<close> that returns the row's id,
  or \<open>null\<close> on an error. The function renders \<open>transaction.timestamp\<close> as a date, which
  throws when the timestamp is missing; the exception is caught and \<open>null\<close> is returned. An
  upsert of an existing row does not touch its posted flags.
\<close>

definition saveContractTransaction ::
  "bool \<Rightarrow> string \<Rightarrow> ContractTransaction \<Rightarrow> TxTable \<Rightarrow> string option \<times> TxTable" where
  "saveContractTransaction upsertError newId transaction tbl =
     (if ct_timestamp transaction = None then (None, tbl)
      else if upsertError then (None, tbl)
      else case tbl (ct_hash transaction) of
             Some row \<Rightarrow> (Some (row_id row), tbl)
           | None \<Rightarrow>
               (Some newId,
                tbl(ct_hash transaction \<mapsto>
                      \<lparr>row_id = newId, posted_to_arena = None, posted_to_discord = None\<rparr>)))"

text \<open>\<open>update({posted_to_arena: true}).eq("id", transactionId)\<close> and its Discord twin.\<close>

definition setPostedToArena :: "string \<Rightarrow> TxTable \<Rightarrow> TxTable" where
  "setPostedToArena transactionId tbl =
     (\<lambda>h. map_option (\<lambda>row. if row_id row = transactionId
                              then row\<lparr>posted_to_arena := Some True\<rparr> else row) (tbl h))"

definition setPostedToDiscord :: "string \<Rightarrow> TxTable \<Rightarrow> TxTable" where
  "setPostedToDiscord transactionId tbl =
     (\<lambda>h. map_option (\<lambda>row. if row_id row = transactionId
                              then row\<lparr>posted_to_discord := Some True\<rparr> else row) (tbl h))"

text \<open>
  The arguments of an outbound call: \<open>postToArenaTimeline\<close> and \<open>postToDiscordWithRetry\<close>.
  One call of \<open>postToDiscordWithRetry\<close> is one outbound call, whatever the retries inside.
\<close>

record ArenaPost =
  ap_username :: string
  ap_tokenSymbol :: string
  ap_tokenName :: "string option"
  ap_contractsCreated :: int
  ap_isChampion :: bool
  ap_arenaProfile :: ArenaUserProfile

record DiscordPost =
  dp_username :: string
  dp_tokenSymbol :: string
  dp_tokenName :: "string option"
  dp_contractsCreated :: int
  dp_isChampion :: bool
  dp_arenaProfile :: ArenaUserProfile
  dp_contractAddress :: "string option"

text \<open>
  The state \<open>processTokenCreation\<close> works on: the two tables, the two in-process caches, and
  the log of what it called: profile resolutions (\<open>fetchArenaUserProfile\<close>) and the
  outbound calls to each channel, in order.
\<close>

record World =
  creators :: CreatorsTable
  contract_transactions :: TxTable
  arenaPostCache :: PostCache
  discordPostCache :: PostCache
  profileLookups :: "string list"
  arenaPosts :: "ArenaPost list"
  discordPosts :: "DiscordPost list"

text \<open>
  What the outside answers during one call of \<open>processTokenCreation\<close>: the clock; whether
  the select on \<open>contract_transactions\<close> fails with an error other than "no rows"; whether
  the upsert fails, and the id of a new row; the answers of the creators table to
  \<open>addCreatorContract\<close> and whether \<open>getCreator\<close> fails; the profile that
  \<open>fetchArenaUserProfile\<close> resolves; the result of each post; and whether each update of a
  posted flag fails (the source does not look at the result of the update). The client of
  the store reports an error in its answer and does not throw.
\<close>

record Env =
  env_now :: int
  txSelectError :: bool
  saveTxError :: bool
  newTxId :: string
  creatorIO :: CreatorIO
  getCreatorError :: bool
  profileResult :: "ArenaUserProfile option"
  arenaPosted :: bool
  arenaFlagError :: bool
  discordPosted :: bool
  discordFlagError :: bool


section \<open>processTokenCreation (src/lib/database-simple.ts)\<close>

text \<open>
  "Check database for existing post status": the values of \<open>transactionId\<close>,
  \<open>arenaAlreadySent\<close> and \<open>discordAlreadySent\<close>. A flag that the row has is copied into the
  cache; without a row the transaction is saved.
\<close>

definition loadPostStatus ::
  "Env \<Rightarrow> ContractTransaction \<Rightarrow> string \<Rightarrow> World \<Rightarrow> (string option \<times> bool \<times> bool) \<times> World" where
  "loadPostStatus env transaction symbol w =
     (let arenaPostKey = createArenaPostCacheKey (ct_hash transaction) (ct_from transaction) symbol;
          discordPostKey = createDiscordPostCacheKey (ct_hash transaction) (ct_from transaction) symbol;
          txData = (if txSelectError env then None
                    else contract_transactions w (ct_hash transaction))
      in case txData of
           Some row \<Rightarrow>
             (let arenaAlreadySent = (posted_to_arena row = Some True);
                  discordAlreadySent = (posted_to_discord row = Some True);
                  w1 = (if arenaAlreadySent
                        then w\<lparr>arenaPostCache :=
                                 markArenaPostAsSent (env_now env) arenaPostKey ''db''
                                   (arenaPostCache w)\<rparr>
                        else w);
                  w2 = (if discordAlreadySent
                        then w1\<lparr>discordPostCache :=
                                  markDiscordPostAsSent (env_now env) discordPostKey ''db''
                                    (discordPostCache w1)\<rparr>
                        else w1)
              in ((Some (row_id row), arenaAlreadySent, discordAlreadySent), w2))
         | None \<Rightarrow>
             (let saved = saveContractTransaction (saveTxError env) (newTxId env) transaction
                            (contract_transactions w)
              in ((fst saved, False, False), w\<lparr>contract_transactions := snd saved\<rparr>)))"

text \<open>The Arena channel: "Only post to Arena for champions and heavy hitters".\<close>

definition arenaChannel ::
  "Env \<Rightarrow> string \<Rightarrow> string option \<Rightarrow> bool \<Rightarrow> string \<Rightarrow> ArenaPost \<Rightarrow> World \<Rightarrow> World" where
  "arenaChannel env arenaPostKey transactionId arenaAlreadySent pt post w =
     (if (pt = ''champion'' \<or> pt = ''heavy-hitter'') \<and> \<not> arenaAlreadySent then
        (let w1 = w\<lparr>arenaPosts := arenaPosts w @ [post]\<rparr>
         in if arenaPosted env then
              (let w2 = w1\<lparr>arenaPostCache :=
                             markArenaPostAsSent (env_now env) arenaPostKey pt (arenaPostCache w1)\<rparr>
               in case transactionId of
                    None \<Rightarrow> w2
                  | Some tid \<Rightarrow>
                      if tid \<noteq> [] \<and> \<not> arenaFlagError env
                      then w2\<lparr>contract_transactions :=
                                setPostedToArena tid (contract_transactions w2)\<rparr>
                      else w2)
            else w1)
      else if pt = ''regular'' then
        w\<lparr>arenaPostCache := markArenaPostAsSent (env_now env) arenaPostKey pt (arenaPostCache w)\<rparr>
      else w)"

text \<open>The Discord channel: "Post to Discord channels (only if not already sent)".\<close>

definition discordChannel ::
  "Env \<Rightarrow> string \<Rightarrow> string option \<Rightarrow> bool \<Rightarrow> string \<Rightarrow> DiscordPost \<Rightarrow> World \<Rightarrow> World" where
  "discordChannel env discordPostKey transactionId discordAlreadySent pt post w =
     (if \<not> discordAlreadySent then
        (let w1 = w\<lparr>discordPosts := discordPosts w @ [post]\<rparr>
         in if discordPosted env then
              (let w2 = w1\<lparr>discordPostCache :=
                             markDiscordPostAsSent (env_now env) discordPostKey pt
                               (discordPostCache w1)\<rparr>
               in case transactionId of
                    None \<Rightarrow> w2
                  | Some tid \<Rightarrow>
                      if tid \<noteq> [] \<and> \<not> discordFlagError env
                      then w2\<lparr>contract_transactions :=
                                setPostedToDiscord tid (contract_transactions w2)\<rparr>
                      else w2)
            else w1)
      else w)"

text \<open>
  The part of \<open>processTokenCreation\<close> that runs for a creator with more than one contract
  and a resolved profile with a user name: the tier, then the two channels.
\<close>

definition dispatch ::
  "(string \<Rightarrow> rat option) \<Rightarrow> Env \<Rightarrow> ContractTransaction \<Rightarrow> string \<Rightarrow> TokenMetadata \<Rightarrow> Creator
     \<Rightarrow> ArenaUserProfile \<Rightarrow> string \<Rightarrow> string option \<Rightarrow> bool \<Rightarrow> bool \<Rightarrow> World \<Rightarrow> World" where
  "dispatch avax env transaction symbol metadata creatorData arenaProfile uname transactionId
     arenaAlreadySent discordAlreadySent w =
     (let arenaPostKey = createArenaPostCacheKey (ct_hash transaction) (ct_from transaction) symbol;
          discordPostKey = createDiscordPostCacheKey (ct_hash transaction) (ct_from transaction) symbol;
          pt = determinePostType avax arenaProfile;
          isChampion = (isArenaChampion arenaProfile = Some True);
          arenaPost = \<lparr>ap_username = uname, ap_tokenSymbol = symbol,
                       ap_tokenName = tm_name metadata,
                       ap_contractsCreated = contracts_created creatorData,
                       ap_isChampion = isChampion, ap_arenaProfile = arenaProfile\<rparr>;
          discordPost = \<lparr>dp_username = uname, dp_tokenSymbol = symbol,
                         dp_tokenName = tm_name metadata,
                         dp_contractsCreated = contracts_created creatorData,
                         dp_isChampion = isChampion, dp_arenaProfile = arenaProfile,
                         dp_contractAddress =
                           or_else (tm_tokenAddress metadata)
                             (or_undefined (ct_tokenAddress transaction))\<rparr>;
          w1 = arenaChannel env arenaPostKey transactionId arenaAlreadySent pt arenaPost w
      in discordChannel env discordPostKey transactionId discordAlreadySent pt discordPost w1)"

text \<open>
  The call of \<open>addCreatorContract\<close> made by \<open>processTokenCreation\<close>, on the creators table of
  the state.
\<close>

definition recordCreation ::
  "Env \<Rightarrow> ContractTransaction \<Rightarrow> string \<Rightarrow> TokenMetadata \<Rightarrow> World \<Rightarrow> string option \<times> World" where
  "recordCreation env transaction symbol metadata w =
     (let r = addCreatorContract (creatorIO env) (ct_from transaction) symbol
                (or_undefined (tm_name metadata))
                (or_else (tm_tokenAddress metadata) (or_undefined (ct_tokenAddress transaction)))
                (Some (ct_hash transaction)) (creators w)
      in (fst r, w\<lparr>creators := snd r\<rparr>))"

text \<open>
  The part of \<open>processTokenCreation\<close> that runs once the creator is known to have more
  than one contract: the profile is resolved ("Get Arena profile for this creator"), and
  with a profile that has a user name the event is dispatched.
\<close>

definition resolveAndDispatch ::
  "(string \<Rightarrow> rat option) \<Rightarrow> Env \<Rightarrow> ContractTransaction \<Rightarrow> string \<Rightarrow> TokenMetadata \<Rightarrow> Creator
     \<Rightarrow> string option \<Rightarrow> bool \<Rightarrow> bool \<Rightarrow> World \<Rightarrow> World" where
  "resolveAndDispatch avax env transaction symbol metadata creatorData transactionId
     arenaAlreadySent discordAlreadySent w =
     (let w3 = w\<lparr>profileLookups := profileLookups w @ [ct_from transaction]\<rparr>
      in case profileResult env of
           None \<Rightarrow> w3
         | Some arenaProfile \<Rightarrow>
             (case username arenaProfile of
                None \<Rightarrow> w3
              | Some uname \<Rightarrow>
                  if uname = [] then w3
                  else dispatch avax env transaction symbol metadata creatorData arenaProfile
                         uname transactionId arenaAlreadySent discordAlreadySent w3))"

text \<open>
  \<open>processTokenCreation(transaction)\<close>: the creator's id, or \<open>null\<close>, and the new state.
\<close>

definition processTokenCreation ::
  "(string \<Rightarrow> rat option) \<Rightarrow> Env \<Rightarrow> ContractTransaction \<Rightarrow> World \<Rightarrow> string option \<times> World" where
  "processTokenCreation avax env transaction w =
     (if ct_isTokenCreation transaction \<noteq> Some True then (None, w)
      else case ct_tokenMetadata transaction of
        None \<Rightarrow> (None, w)
      | Some metadata \<Rightarrow>
          (case tm_symbol metadata of
             None \<Rightarrow> (None, w)
           | Some symbol \<Rightarrow>
               if symbol = [] then (None, w)
               else
                 (let status = loadPostStatus env transaction symbol w;
                      transactionId = fst (fst status);
                      arenaAlreadySent = fst (snd (fst status));
                      discordAlreadySent = snd (snd (fst status));
                      w1 = snd status
                  in if arenaAlreadySent \<and> discordAlreadySent
                     then recordCreation env transaction symbol metadata w1
                     else
                       (let recorded = recordCreation env transaction symbol metadata w1;
                            creatorId = fst recorded;
                            w2 = snd recorded
                        in if truthy creatorId then
                             (case getCreator (getCreatorError env) (ct_from transaction)
                                     (creators w2) of
                                None \<Rightarrow> (creatorId, w2)
                              | Some creatorData \<Rightarrow>
                                  if contracts_created creatorData > 1
                                  then (creatorId,
                                        resolveAndDispatch avax env transaction symbol metadata
                                          creatorData transactionId arenaAlreadySent
                                          discordAlreadySent w2)
                                  else (creatorId, w2))
                           else (creatorId, w2)))))"

text \<open>
  Notions used to state the properties: the symbol of an event, what the persisted flag of a
  channel says for a transaction hash, what a cache says for a key, and the value of
  \<open>transactionId\<close> in a call.
\<close>

definition symbolOf :: "ContractTransaction \<Rightarrow> string" where
  "symbolOf transaction =
     (case ct_tokenMetadata transaction of
        None \<Rightarrow> []
      | Some metadata \<Rightarrow> (case tm_symbol metadata of None \<Rightarrow> [] | Some symbol \<Rightarrow> symbol))"

definition arenaFlag :: "TxTable \<Rightarrow> string \<Rightarrow> bool" where
  "arenaFlag tbl h = (case tbl h of None \<Rightarrow> False | Some row \<Rightarrow> posted_to_arena row = Some True)"

definition discordFlag :: "TxTable \<Rightarrow> string \<Rightarrow> bool" where
  "discordFlag tbl h = (case tbl h of None \<Rightarrow> False | Some row \<Rightarrow> posted_to_discord row = Some True)"

definition persistedArena :: "World \<Rightarrow> string \<Rightarrow> bool" where
  "persistedArena w h = arenaFlag (contract_transactions w) h"

definition persistedDiscord :: "World \<Rightarrow> string \<Rightarrow> bool" where
  "persistedDiscord w h = discordFlag (contract_transactions w) h"

definition cachedPosted :: "PostCache \<Rightarrow> string \<Rightarrow> bool" where
  "cachedPosted cache cacheKey = (case cache cacheKey of None \<Rightarrow> False | Some e \<Rightarrow> posted e)"

definition transactionIdOf :: "Env \<Rightarrow> ContractTransaction \<Rightarrow> World \<Rightarrow> string option" where
  "transactionIdOf env transaction w =
     fst (fst (loadPostStatus env transaction (symbolOf transaction) w))"

text \<open>Concrete states and answers for the examples.\<close>

definition emptyWorld :: World where
  "emptyWorld = \<lparr>creators = Map.empty, contract_transactions = Map.empty,
                 arenaPostCache = Map.empty, discordPostCache = Map.empty,
                 profileLookups = [], arenaPosts = [], discordPosts = []\<rparr>"

text \<open>A wallet that already created one token.\<close>

definition oneTokenWorld :: World where
  "oneTokenWorld = emptyWorld\<lparr>creators := addCreatorContracts [callA] Map.empty\<rparr>"

definition championProfile :: ArenaUserProfile where
  "championProfile = aliceProfile\<lparr>followerCount := Some 10, isArenaChampion := Some True\<rparr>"

text \<open>A store and two channels that answer without error, and a champion's profile.\<close>

definition goodEnv :: Env where
  "goodEnv = \<lparr>env_now = 1000, txSelectError = False, saveTxError = False, newTxId = ''t1'',
              creatorIO = io0, getCreatorError = False, profileResult = Some championProfile,
              arenaPosted = True, arenaFlagError = False,
              discordPosted = True, discordFlagError = False\<rparr>"

text \<open>
  A creation event by that wallet as the poller builds it, with a timestamp, and the same
  event as the token list of the user interface passes it, without one.
\<close>

definition polledEvent :: ContractTransaction where
  "polledEvent =
     \<lparr>ct_hash = ''0xc2'', ct_from = ''0xabc'',
      ct_to = Some ''0x8315f1eb449Dd4B779495C3A0b05e5d194446c6e'', ct_value = 0,
      ct_blockNumber = 11, ct_timestamp = Some 1700000000000,
      ct_method = Some ''createToken'', ct_methodId = Some ''0x0b8c6fec'',
      ct_transactionType = TOKEN_CREATION, ct_isTokenCreation = Some True,
      ct_description = ''Create new token'',
      ct_tokenMetadata = Some \<lparr>tm_name = Some ''Second'', tm_symbol = Some ''SEC'',
                                 tm_totalSupply = Some ''1000'', tm_creator = None,
                                 tm_tokenAddress = None\<rparr>,
      ct_creatorProfile = None, ct_rawInput = None, ct_tokenAddress = None\<rparr>"

definition listedEvent :: ContractTransaction where
  "listedEvent = polledEvent\<lparr>ct_timestamp := None\<rparr>"


text \<open>
  The state after the listed event was processed once, and the state after the polled event
  was processed once by a store whose flag updates fail; later calls happen at a later
  clock, well inside the cache's time to live.
\<close>

definition afterListed :: World where
  "afterListed = snd (processTokenCreation exampleAvax goodEnv listedEvent oneTokenWorld)"

definition flagLostEnv :: Env where
  "flagLostEnv = goodEnv\<lparr>arenaFlagError := True, discordFlagError := True\<rparr>"

definition afterFlagLost :: World where
  "afterFlagLost = snd (processTokenCreation exampleAvax flagLostEnv polledEvent oneTokenWorld)"

definition laterEnv :: Env where
  "laterEnv = goodEnv\<lparr>env_now := 2000\<rparr>"

definition failingEnv :: Env where
  "failingEnv = goodEnv\<lparr>arenaPosted := False, discordPosted := False\<rparr>"



section \<open>Decimal rendering\<close>

lemma toString_bigint_nonempty: "toString_bigint n \<noteq> []"
  by (subst toString_bigint.simps) simp


lemma digit_char_cases:
  "d < 10 \<Longrightarrow> d = 0 \<or> d = 1 \<or> d = 2 \<or> d = 3 \<or> d = 4 \<or> d = 5 \<or> d = 6 \<or> d = 7 \<or> d = 8 \<or> d = (9::nat)"
  by arith

lemma digit_char_1: "d < 10 \<Longrightarrow> digit_char d = CHR ''1'' \<longleftrightarrow> d = 1"
  using digit_char_cases [of d] by (auto simp add: digit_char_def)

lemma digit_char_9: "d < 10 \<Longrightarrow> digit_char d = CHR ''9'' \<longleftrightarrow> d = 9"
  using digit_char_cases [of d] by (auto simp add: digit_char_def)

lemma toString_bigint_one: "toString_bigint m = ''1'' \<longleftrightarrow> m = 1"
proof (cases "m < 10")
  case True
  then show ?thesis
    by (subst toString_bigint.simps) (simp add: digit_char_1)
next
  case False
  have "toString_bigint m = toString_bigint (m div 10) @ [digit_char (m mod 10)]"
    using False by (subst toString_bigint.simps) simp
  moreover have "toString_bigint (m div 10) \<noteq> []" by (rule toString_bigint_nonempty)
  ultimately have "toString_bigint m \<noteq> ''1''" by auto
  with False show ?thesis by auto
qed

lemma toString_bigint_19: "toString_bigint n = ''19'' \<longleftrightarrow> n = 19"
proof (cases "n < 10")
  case True
  then show ?thesis
    by (subst toString_bigint.simps) simp
next
  case False
  have eq: "toString_bigint n = toString_bigint (n div 10) @ [digit_char (n mod 10)]"
    using False by (subst toString_bigint.simps) simp
  have "toString_bigint n = ''19'' \<longleftrightarrow>
        toString_bigint (n div 10) = ''1'' \<and> digit_char (n mod 10) = CHR ''9''"
  proof -
    have "''19'' = ''1'' @ [CHR ''9'']" by simp
    then show ?thesis unfolding eq by (simp only: append1_eq_conv)
  qed
  also have "\<dots> \<longleftrightarrow> n div 10 = 1 \<and> n mod 10 = 9"
    by (simp add: toString_bigint_one digit_char_9)
  also have "\<dots> \<longleftrightarrow> n = 19" by presburger
  finally show ?thesis .
qed

lemma toString_int_19: "toString_int n = ''19'' \<longleftrightarrow> n = 19"
proof (cases "n < 0")
  case True
  then show ?thesis by (simp add: toString_int_def)
next
  case False
  then show ?thesis by (auto simp add: toString_int_def toString_bigint_19)
qed



section \<open>Properties of the classifier\<close>


text \<open>
  \<open>includes_str\<close> is the substring relation: the needle occurs between some prefix and
  some suffix of the text.
\<close>

lemma includes_str_iff: "includes_str s needle \<longleftrightarrow> (\<exists>p q. s = p @ needle @ q)"
proof (induction s)
  case Nil
  then show ?case by auto
next
  case (Cons c cs)
  have split_occurrence:
    "(\<exists>p q. c # cs = p @ needle @ q) \<longleftrightarrow>
     (\<exists>q. c # cs = needle @ q) \<or> (\<exists>p q. cs = p @ needle @ q)"
  proof
    assume "\<exists>p q. c # cs = p @ needle @ q"
    then obtain p q where pq: "c # cs = p @ needle @ q" by blast
    show "(\<exists>q. c # cs = needle @ q) \<or> (\<exists>p q. cs = p @ needle @ q)"
    proof (cases p)
      case Nil
      with pq show ?thesis by auto
    next
      case (Cons a p')
      with pq have "cs = p' @ needle @ q" by simp
      then show ?thesis by blast
    qed
  next
    assume "(\<exists>q. c # cs = needle @ q) \<or> (\<exists>p q. cs = p @ needle @ q)"
    then show "\<exists>p q. c # cs = p @ needle @ q"
    proof
      assume "\<exists>q. c # cs = needle @ q"
      then obtain q where "c # cs = [] @ needle @ q" by auto
      then show ?thesis by blast
    next
      assume "\<exists>p q. cs = p @ needle @ q"
      then obtain p q where "cs = p @ needle @ q" by blast
      then have "c # cs = (c # p) @ needle @ q" by simp
      then show ?thesis by blast
    qed
  qed
  have at_front: "(\<exists>q. c # cs = needle @ q) \<longleftrightarrow> take (length needle) (c # cs) = needle"
    by (metis append_eq_conv_conj)
  show ?case using Cons.IH split_occurrence at_front by simp
qed





section \<open>Properties of the call-data decoder\<close>





subsection \<open>The example codec reads back what it wrote\<close>




















lemma length_bytesToHex: "length (bytesToHex bs) = 2 * length bs"
  by (induction bs) (simp_all add: bytesToHex_def)











section \<open>Properties of the chain poller\<close>

lemma handleTransaction_notify:
  "NotifyCallbacks ev \<in> set (handleTransaction abi block tx) \<longleftrightarrow>
     toTrackedContract tx
     \<and> info_type (determineTransactionType (slice 0 10 (tx_input tx)) (tx_value tx)) = TOKEN_CREATION
     \<and> ev = contractTxOf abi block tx"
  by (auto simp add: handleTransaction_def Let_def)

lemma contractTxOf_wraps:
  "ct_hash (contractTxOf abi block tx) = tx_hash tx
   \<and> ct_from (contractTxOf abi block tx) = tx_from tx
   \<and> ct_to (contractTxOf abi block tx) = tx_to tx
   \<and> ct_value (contractTxOf abi block tx) = tx_value tx
   \<and> ct_rawInput (contractTxOf abi block tx) = Some (tx_input tx)
   \<and> ct_transactionType (contractTxOf abi block tx)
       = info_type (determineTransactionType (slice 0 10 (tx_input tx)) (tx_value tx))"
  by (simp add: contractTxOf_def Let_def)

lemma set_processBlock:
  "s \<in> set (processBlock abi block) \<longleftrightarrow>
     (\<exists>tx \<in> set (blk_transactions block). s \<in> set (handleTransaction abi block tx))"
  by (simp add: processBlock_def)

lemma set_newBlocks_blocks:
  "s \<in> set (newBlocks abi getBlock lastBlock latestBlock) \<longleftrightarrow>
     (\<exists>blockNum block. lastBlock < blockNum \<and> blockNum \<le> latestBlock
        \<and> getBlock blockNum = Some block \<and> s \<in> set (processBlock abi block))"
proof -
  have "s \<in> set (newBlocks abi getBlock lastBlock latestBlock) \<longleftrightarrow>
        (\<exists>blockNum \<in> set [lastBlock + 1 .. latestBlock].
           s \<in> set (case getBlock blockNum of None \<Rightarrow> [] | Some block \<Rightarrow> processBlock abi block))"
    by (simp add: newBlocks_def)
  also have "\<dots> \<longleftrightarrow> (\<exists>blockNum. lastBlock < blockNum \<and> blockNum \<le> latestBlock
        \<and> (\<exists>block. getBlock blockNum = Some block \<and> s \<in> set (processBlock abi block)))"
  proof -
    have key: "s \<in> set (case getBlock n of None \<Rightarrow> [] | Some block \<Rightarrow> processBlock abi block)
          \<longleftrightarrow> (\<exists>block. getBlock n = Some block \<and> s \<in> set (processBlock abi block))" for n
      by (cases "getBlock n") simp_all
    have range: "n \<in> set [lastBlock + 1 .. latestBlock] \<longleftrightarrow> lastBlock < n \<and> n \<le> latestBlock" for n
      by auto
    show ?thesis unfolding Bex_def key range by blast
  qed
  finally show ?thesis by blast
qed

lemma set_newBlocks:
  "s \<in> set (newBlocks abi getBlock lastBlock latestBlock) \<longleftrightarrow>
     (\<exists>blockNum block tx. lastBlock < blockNum \<and> blockNum \<le> latestBlock
        \<and> getBlock blockNum = Some block \<and> tx \<in> set (blk_transactions block)
        \<and> s \<in> set (handleTransaction abi block tx))"
  unfolding set_newBlocks_blocks set_processBlock by blast

lemma steady_tick:
  "isMonitoring st \<Longrightarrow> lastProcessedBlock st \<noteq> 0 \<Longrightarrow> lastProcessedBlock st < latestBlock \<Longrightarrow>
     snd (monitorContract abi (Some latestBlock) getBlock st)
       = newBlocks abi getBlock (lastProcessedBlock st) latestBlock"
  by (simp add: monitorContract_def)

lemma slice_selector: "length sel = 10 \<Longrightarrow> slice 0 10 (callData sel encoded) = sel"
  by (simp add: slice_def callData_def)

text \<open>
  Claim C2, as stated, fails for a purchase: the transaction is in the newly fetched block
  and its recipient is the tracked contract (written in another letter case), it is
  classified BUY, and the run of the poller schedules nothing for it, so no event reaches a
  subscriber.
\<close>

theorem poller_skips_other_kinds_counterexample:
  "toTrackedContract buyTx
   \<and> buyTx \<in> set (blk_transactions (exampleBlock [buyTx]))
   \<and> info_type (determineTransactionType (slice 0 10 (tx_input buyTx)) (tx_value buyTx)) = BUY
   \<and> snd (monitorContract exampleAbi (Some 11) (oneBlockChain (exampleBlock [buyTx])) runningState) = []"
  by (simp add: toTrackedContract_def buyTx_def ARENA_CONTRACT_ADDRESS_def toLowerCase_def
        toLowerCase_char_def exampleBlock_def slice_def determineTransactionType_def
        METHOD_SIGNATURES_def monitorContract_def runningState_def newBlocks_def oneBlockChain_def
        processBlock_def handleTransaction_def)

text \<open>
  Claim C2, amended: in the steady-state polling tick, for every transaction in a newly
  fetched block whose recipient is the tracked contract address and which is classified
  TOKEN_CREATION, the poller constructs the event wrapping it and schedules its delivery,
  and the delivery calls every subscriber callback with it; a transaction of any other kind
  is skipped, so every event the tick delivers is a token creation.
\<close>

theorem poller_delivers_token_creations:
  "isMonitoring st \<and> lastProcessedBlock st \<noteq> 0 \<and> lastProcessedBlock st < latestBlock \<longrightarrow>
   (let scheduled = snd (monitorContract abi (Some latestBlock) getBlock st) in
     (\<forall>blockNum block tx.
        lastProcessedBlock st < blockNum \<and> blockNum \<le> latestBlock
        \<and> getBlock blockNum = Some block \<and> tx \<in> set (blk_transactions block)
        \<and> toTrackedContract tx
        \<and> info_type (determineTransactionType (slice 0 10 (tx_input tx)) (tx_value tx))
            = TOKEN_CREATION
        \<longrightarrow> NotifyCallbacks (contractTxOf abi block tx) \<in> set scheduled
            \<and> ct_hash (contractTxOf abi block tx) = tx_hash tx
            \<and> ct_transactionType (contractTxOf abi block tx) = TOKEN_CREATION
            \<and> (\<forall>callback \<in> set callbacks.
                  Deliver callback (contractTxOf abi block tx)
                    \<in> set (notifyCallbacks callbacks (contractTxOf abi block tx))))
     \<and> (\<forall>ev. NotifyCallbacks ev \<in> set scheduled \<longrightarrow> ct_transactionType ev = TOKEN_CREATION))"
proof (intro impI, elim conjE)
  assume st: "isMonitoring st" "lastProcessedBlock st \<noteq> 0" "lastProcessedBlock st < latestBlock"
  note tick = steady_tick [OF st, of abi getBlock]
  have deliver: "\<forall>callback \<in> set callbacks. Deliver callback ev \<in> set (notifyCallbacks callbacks ev)" for ev
    by (simp add: notifyCallbacks_def)
  have a: "NotifyCallbacks (contractTxOf abi block tx)
             \<in> set (snd (monitorContract abi (Some latestBlock) getBlock st))"
    if "lastProcessedBlock st < blockNum" "blockNum \<le> latestBlock"
       "getBlock blockNum = Some block" "tx \<in> set (blk_transactions block)"
       "toTrackedContract tx"
       "info_type (determineTransactionType (slice 0 10 (tx_input tx)) (tx_value tx)) = TOKEN_CREATION"
    for blockNum block tx
    unfolding tick set_newBlocks using that handleTransaction_notify by blast
  have b: "ct_transactionType ev = TOKEN_CREATION"
    if "NotifyCallbacks ev \<in> set (snd (monitorContract abi (Some latestBlock) getBlock st))" for ev
    using that unfolding tick set_newBlocks handleTransaction_notify
    using contractTxOf_wraps by auto
  show "let scheduled = snd (monitorContract abi (Some latestBlock) getBlock st) in
     (\<forall>blockNum block tx.
        lastProcessedBlock st < blockNum \<and> blockNum \<le> latestBlock
        \<and> getBlock blockNum = Some block \<and> tx \<in> set (blk_transactions block)
        \<and> toTrackedContract tx
        \<and> info_type (determineTransactionType (slice 0 10 (tx_input tx)) (tx_value tx))
            = TOKEN_CREATION
        \<longrightarrow> NotifyCallbacks (contractTxOf abi block tx) \<in> set scheduled
            \<and> ct_hash (contractTxOf abi block tx) = tx_hash tx
            \<and> ct_transactionType (contractTxOf abi block tx) = TOKEN_CREATION
            \<and> (\<forall>callback \<in> set callbacks.
                  Deliver callback (contractTxOf abi block tx)
                    \<in> set (notifyCallbacks callbacks (contractTxOf abi block tx))))
     \<and> (\<forall>ev. NotifyCallbacks ev \<in> set scheduled \<longrightarrow> ct_transactionType ev = TOKEN_CREATION)"
    unfolding Let_def using a b deliver contractTxOf_wraps by auto
qed

theorem poller_delivers_token_creations_witness:
  "(let block = exampleBlock [buyTx, createTx];
        ev = contractTxOf exampleAbi block createTx
    in NotifyCallbacks ev
         \<in> set (snd (monitorContract exampleAbi (Some 11) (\<lambda>n. Some block) runningState))
       \<and> ct_hash ev = ''0xc1''
       \<and> Deliver (1::nat) ev \<in> set (notifyCallbacks [1, 2] ev)
       \<and> Deliver (2::nat) ev \<in> set (notifyCallbacks [1, 2] ev))"
proof -
  define block where "block = exampleBlock [buyTx, createTx]"
  have st: "isMonitoring runningState \<and> lastProcessedBlock runningState \<noteq> 0
            \<and> lastProcessedBlock runningState < 11"
    by (simp add: runningState_def)
  have range: "lastProcessedBlock runningState < 11 \<and> (11::int) \<le> 11"
    by (simp add: runningState_def)
  have mem: "createTx \<in> set (blk_transactions block)"
    by (simp add: block_def exampleBlock_def)
  have to: "toTrackedContract createTx"
    by (simp add: toTrackedContract_def createTx_def ARENA_CONTRACT_ADDRESS_def toLowerCase_def
          toLowerCase_char_def)
  have sel: "slice 0 10 (tx_input createTx) = ''0x0b8c6fec''"
    by (simp add: createTx_def slice_selector)
  have kind: "info_type (determineTransactionType (slice 0 10 (tx_input createTx)) (tx_value createTx))
              = TOKEN_CREATION"
    unfolding sel by (simp add: determineTransactionType_def METHOD_SIGNATURES_def)
  have h: "tx_hash createTx = ''0xc1''" by (simp add: createTx_def)
  from poller_delivers_token_creations
         [where st = runningState and latestBlock = 11 and abi = exampleAbi
            and getBlock = "\<lambda>n. Some block" and callbacks = "[1, 2::nat]"]
       st
  have "\<forall>blockNum b tx.
        lastProcessedBlock runningState < blockNum \<and> blockNum \<le> 11
        \<and> Some block = Some b \<and> tx \<in> set (blk_transactions b)
        \<and> toTrackedContract tx
        \<and> info_type (determineTransactionType (slice 0 10 (tx_input tx)) (tx_value tx))
            = TOKEN_CREATION
        \<longrightarrow> NotifyCallbacks (contractTxOf exampleAbi b tx)
              \<in> set (snd (monitorContract exampleAbi (Some 11) (\<lambda>n. Some block) runningState))
            \<and> ct_hash (contractTxOf exampleAbi b tx) = tx_hash tx
            \<and> ct_transactionType (contractTxOf exampleAbi b tx) = TOKEN_CREATION
            \<and> (\<forall>callback \<in> set [1, 2::nat].
                  Deliver callback (contractTxOf exampleAbi b tx)
                    \<in> set (notifyCallbacks [1, 2] (contractTxOf exampleAbi b tx)))"
    unfolding Let_def by blast
  from this [rule_format, of 11 block createTx] range mem to kind h
  show ?thesis unfolding Let_def block_def [symmetric] by simp
qed

section \<open>Properties of the tiering\<close>




section \<open>Properties of the stats stage\<close>

lemma find_not_None_iff: "find P xs \<noteq> None \<longleftrightarrow> list_ex P xs"
  by (induction xs) auto

lemma code_match:
  "(c = CodeNumber 19 \<or> c = CodeString ''19'' \<or> Number_code num c = Some 19)
     \<or> String_code c = ''19'' \<longleftrightarrow> codeEquals19 num c"
proof (cases c)
  case (CodeNumber n)
  then show ?thesis
    by (auto simp add: codeEquals19_def Number_code_def String_code_def toString_int_19)
next
  case (CodeString s)
  then show ?thesis
    by (auto simp add: codeEquals19_def Number_code_def String_code_def)
qed

lemma champion_search:
  "championBadge num bs \<noteq> None \<or> championBadgeLoose bs \<noteq> None
     \<longleftrightarrow> list_ex (\<lambda>b. codeEquals19 num (badgeType b)) bs"
proof -
  have "championBadge num bs \<noteq> None \<or> championBadgeLoose bs \<noteq> None \<longleftrightarrow>
        (\<exists>b \<in> set bs. (badgeType b = CodeNumber 19 \<or> badgeType b = CodeString ''19''
                    \<or> Number_code num (badgeType b) = Some 19)
                 \<or> String_code (badgeType b) = ''19'')"
    unfolding championBadge_def championBadgeLoose_def find_not_None_iff list_ex_iff by blast
  also have "\<dots> \<longleftrightarrow> (\<exists>b \<in> set bs. codeEquals19 num (badgeType b))"
    by (simp only: code_match)
  finally show ?thesis by (simp add: list_ex_iff)
qed


lemma setStats_outcome:
  "(\<exists>p'. setStats d p = Done p') \<longleftrightarrow>
     (case sd_stats d of None \<Rightarrow> True
      | Some st \<Rightarrow> st_keyPrice st \<noteq> JsNull \<and> st_volume st \<noteq> JsNull)"
  by (auto simp add: setStats_def and_then_def setKeyPrice_def setVolume_def setSupply_def
        split: option.splits jsfield.splits outcome.splits)

lemma setTotalHolders_outcome:
  "(\<exists>p'. setTotalHolders d p = Done p') \<longleftrightarrow> sd_totalHolders d \<noteq> JsNull"
  by (auto simp add: setTotalHolders_def split: jsfield.splits)

lemma detectBadges_Done:
  "detectBadges num d p = Done p' \<Longrightarrow>
     (case sd_badges d of None \<Rightarrow> True | Some entries \<Rightarrow> None \<notin> set entries)
     \<and> isArenaChampion p' =
         Some (case sd_badges d of None \<Rightarrow> False
               | Some entries \<Rightarrow> list_ex (\<lambda>b. codeEquals19 num (badgeType b)) (map the entries))"
  using champion_search [of num "map the (the (sd_badges d))"]
  by (auto simp add: detectBadges_def Let_def split: option.splits if_splits)

lemma detectBadges_Threw:
  "detectBadges num d p = Threw p' \<Longrightarrow>
     \<not> (case sd_badges d of None \<Rightarrow> True | Some entries \<Rightarrow> None \<notin> set entries)"
  by (auto simp add: detectBadges_def Let_def split: option.splits if_splits)

lemma statsBody_Done:
  assumes "statsBody num body p0 = Done p"
  shows "statsCompletes (HttpOk body)
         \<and> isArenaChampion p = Some (championExpected num (HttpOk body))"
proof -
  from assms obtain d where body: "body = Some d"
    by (cases body) (simp_all add: statsBody_def)
  from assms body obtain p1 p2 where
    s1: "setTotalHolders d p0 = Done p1" and s2: "setStats d p1 = Done p2"
    and s3: "detectBadges num d p2 = Done p"
    by (auto simp add: statsBody_def and_then_def split: outcome.splits)
  have c1: "sd_totalHolders d \<noteq> JsNull"
    using s1 setTotalHolders_outcome [of d p0] by blast
  have c2: "case sd_stats d of None \<Rightarrow> True
      | Some st \<Rightarrow> st_keyPrice st \<noteq> JsNull \<and> st_volume st \<noteq> JsNull"
    using s2 setStats_outcome [of d p1] by blast
  note c3 = detectBadges_Done [OF s3]
  have comp: "statsCompletes (HttpOk body)"
    using c1 c2 c3 by (simp add: statsCompletes_def body)
  moreover have "isArenaChampion p = Some (championExpected num (HttpOk body))"
    using c3 comp by (simp add: championExpected_def returnedBadges_def body split: option.splits)
  ultimately show ?thesis by simp
qed

lemma statsBody_Threw:
  assumes "statsBody num body p0 = Threw p"
  shows "\<not> statsCompletes (HttpOk body)"
proof (cases body)
  case None
  then show ?thesis by (simp add: statsCompletes_def)
next
  case (Some d)
  show ?thesis
  proof (cases "setTotalHolders d p0")
    case (Threw q)
    then have "sd_totalHolders d = JsNull"
      using setTotalHolders_outcome [of d p0] by auto
    then show ?thesis by (simp add: statsCompletes_def Some)
  next
    case (Done p1)
    note d1 = this
    show ?thesis
    proof (cases "setStats d p1")
      case (Threw q)
      then have "\<not> (case sd_stats d of None \<Rightarrow> True
          | Some st \<Rightarrow> st_keyPrice st \<noteq> JsNull \<and> st_volume st \<noteq> JsNull)"
        using setStats_outcome [of d p1] by auto
      then show ?thesis by (auto simp add: statsCompletes_def Some)
    next
      case (Done p2)
      with d1 assms Some have "detectBadges num d p2 = Threw p"
        by (simp add: statsBody_def and_then_def)
      from detectBadges_Threw [OF this] show ?thesis
        by (auto simp add: statsCompletes_def Some)
    qed
  qed
qed

text \<open>
  Claim C8: after the stats stage the champion flag of the profile is true exactly when the
  stage completed and the returned badge list holds an entry whose badge-type code equals
  19, as a number or as text; when the badge array is absent, or the stage fails in any way
  (an exception, or a response that is not ok, such as 403), the flag of the partial profile
  is set to false and is never left undefined. Only when there is no profile at all and the
  request failed is there no profile to carry the flag.
\<close>

theorem champion_flag_after_stats:
  "truthy userId \<longrightarrow>
     (case fetchArenaUserProfile_step3 num profile handle userId response of
        None \<Rightarrow> profile = None \<and> (response = FetchThrows \<or> (\<exists>status. response = HttpError status))
      | Some p \<Rightarrow> isArenaChampion p = Some (championExpected num response))"
proof
  assume u: "truthy userId"
  show "case fetchArenaUserProfile_step3 num profile handle userId response of
        None \<Rightarrow> profile = None \<and> (response = FetchThrows \<or> (\<exists>status. response = HttpError status))
      | Some p \<Rightarrow> isArenaChampion p = Some (championExpected num response)"
  proof (cases response)
    case FetchThrows
    then show ?thesis using u
      by (cases profile)
         (simp_all add: fetchArenaUserProfile_step3_def setNotChampion_def championExpected_def
            statsCompletes_def)
  next
    case (HttpError status)
    then show ?thesis using u
      by (cases profile)
         (simp_all add: fetchArenaUserProfile_step3_def setNotChampion_def championExpected_def
            statsCompletes_def)
  next
    case (HttpOk body)
    define p0 where "p0 = (case profile of
                          None \<Rightarrow> emptyProfile\<lparr>username := or_else handle userId,
                                                displayName := or_else handle userId\<rparr>
                        | Some p \<Rightarrow> p)"
    show ?thesis
    proof (cases "statsBody num body p0")
      case (Threw q)
      from statsBody_Threw [OF this] have "\<not> championExpected num response"
        by (simp add: championExpected_def HttpOk)
      then show ?thesis using u Threw
        by (simp add: fetchArenaUserProfile_step3_def HttpOk p0_def [symmetric])
    next
      case (Done q)
      from statsBody_Done [OF this] show ?thesis using u Done
        by (simp add: fetchArenaUserProfile_step3_def HttpOk p0_def [symmetric])
    qed
  qed
qed


theorem champion_flag_after_stats_witness:
  "map_option isArenaChampion
     (fetchArenaUserProfile_step3 exampleNum (Some aliceProfile) (Some ''alice'') (Some ''u1'')
        (HttpOk (Some championBody))) = Some (Some True)
   \<and> map_option isArenaChampion
     (fetchArenaUserProfile_step3 exampleNum (Some aliceProfile) (Some ''alice'') (Some ''u1'')
        (HttpOk (Some noBadgesBody))) = Some (Some False)
   \<and> map_option isArenaChampion
     (fetchArenaUserProfile_step3 exampleNum (Some aliceProfile) (Some ''alice'') (Some ''u1'')
        (HttpError 403)) = Some (Some False)
   \<and> map_option isArenaChampion
     (fetchArenaUserProfile_step3 exampleNum (Some aliceProfile) (Some ''alice'') (Some ''u1'')
        FetchThrows) = Some (Some False)"
proof -
  have u: "truthy (Some ''u1'')" by (simp add: truthy_def)
  have e1: "championExpected exampleNum (HttpOk (Some championBody))"
    by (simp add: championExpected_def statsCompletes_def returnedBadges_def championBody_def
          codeEquals19_def)
  have e2: "\<not> championExpected exampleNum (HttpOk (Some noBadgesBody))"
    by (simp add: championExpected_def statsCompletes_def returnedBadges_def noBadgesBody_def)
  have e3: "\<not> championExpected exampleNum (HttpError 403)"
    by (simp add: championExpected_def statsCompletes_def)
  have e4: "\<not> championExpected exampleNum FetchThrows"
    by (simp add: championExpected_def statsCompletes_def)
  show ?thesis
    using champion_flag_after_stats [where userId = "Some ''u1''" and num = exampleNum and profile = "Some aliceProfile" and handle = "Some ''alice''" and response = "HttpOk (Some championBody)"]
          champion_flag_after_stats [where userId = "Some ''u1''" and num = exampleNum and profile = "Some aliceProfile" and handle = "Some ''alice''" and response = "HttpOk (Some noBadgesBody)"]
          champion_flag_after_stats [where userId = "Some ''u1''" and num = exampleNum and profile = "Some aliceProfile" and handle = "Some ''alice''" and response = "HttpError 403"]
          champion_flag_after_stats [where userId = "Some ''u1''" and num = exampleNum and profile = "Some aliceProfile" and handle = "Some ''alice''" and response = "FetchThrows"]
          u e1 e2 e3 e4
    by (auto split: option.splits)
qed

section \<open>Properties of the creators table\<close>

lemma tickersOf_other_wallet:
  "w' \<noteq> w \<Longrightarrow> tickersOf (snd (addCreatorContract io w' smb n a h tbl)) w = tickersOf tbl w"
  by (simp add: addCreatorContract_def tickersOf_def Let_def split: option.splits)

lemma tickersOf_same_wallet:
  "tickersOf (snd (addCreatorContract io w smb n a h tbl)) w = tickersOf tbl w
   \<or> (smb \<notin> set (map tk_symbol (tickersOf tbl w))
      \<and> (\<exists>t. tk_symbol t = smb \<and> tk_transaction_hash t = h
            \<and> tickersOf (snd (addCreatorContract io w smb n a h tbl)) w = tickersOf tbl w @ [t]))"
  by (auto simp add: addCreatorContract_def tickersOf_def Let_def existingTickers_def
        split: option.splits)

lemma symbols_distinct_step:
  assumes "distinct (map tk_symbol (tickersOf tbl w))"
  shows "distinct (map tk_symbol (tickersOf (snd (addCreatorContract io w' smb n a h tbl)) w))"
proof (cases "w' = w")
  case False
  then show ?thesis using assms by (simp add: tickersOf_other_wallet)
next
  case True
  show ?thesis
    using tickersOf_same_wallet [of io w smb n a h tbl] assms True by auto
qed

lemma symbols_distinct_run:
  "distinct (map tk_symbol (tickersOf tbl w))
   \<Longrightarrow> distinct (map tk_symbol (tickersOf (addCreatorContracts calls tbl) w))"
  by (induction calls arbitrary: tbl) (simp_all add: symbols_distinct_step)

lemma present_symbol_not_appended:
  "smb \<in> set (map tk_symbol (tickersOf tbl w))
   \<Longrightarrow> tickersOf (snd (addCreatorContract io w smb n a h tbl)) w = tickersOf tbl w"
  using tickersOf_same_wallet [of io w smb n a h tbl] by auto

text \<open>
  Claim C9, as stated, fails for two creations by one wallet with different symbols and the
  same transaction hash: both entries are appended, and the list holds the hash twice.
\<close>

theorem tickers_same_hash_counterexample:
  "map tk_transaction_hash (tickersOf (addCreatorContracts [callA, callB] Map.empty) ''0xabc'')
     = [Some ''0xh1'', Some ''0xh1'']"
  by (simp add: callA_def callB_def io0_def addCreatorContract_def tickersOf_def
        existingTickers_def)

text \<open>
  Claim C9, amended: along every sequence of \<open>addCreatorContract\<close> operations the ticker list
  of a creator record never holds two entries with the same symbol, and an entry whose symbol
  is already present in the list is never appended again. (Transaction hashes are not
  compared.)
\<close>

theorem ticker_symbols_distinct:
  "(distinct (map tk_symbol (tickersOf tbl w))
      \<longrightarrow> distinct (map tk_symbol (tickersOf (addCreatorContracts calls tbl) w)))
   \<and> (smb \<in> set (map tk_symbol (tickersOf tbl w))
      \<longrightarrow> tickersOf (snd (addCreatorContract io w smb n a h tbl)) w = tickersOf tbl w)"
  using symbols_distinct_run [of tbl w calls] present_symbol_not_appended [of smb tbl w io n a h]
  by blast

theorem ticker_symbols_distinct_witness:
  "distinct (map tk_symbol (tickersOf (addCreatorContracts [callA, callB, callA] Map.empty) ''0xabc''))
   \<and> tickersOf (snd (addCreatorContract io0 ''0xabc'' ''AAA'' None None (Some ''0xh2'')
                      (addCreatorContracts [callA] Map.empty))) ''0xabc''
       = tickersOf (addCreatorContracts [callA] Map.empty) ''0xabc''"
proof -
  have start: "distinct (map tk_symbol (tickersOf Map.empty ''0xabc''))"
    by (simp add: tickersOf_def)
  have present: "''AAA'' \<in> set (map tk_symbol (tickersOf (addCreatorContracts [callA] Map.empty) ''0xabc''))"
    by (simp add: callA_def io0_def addCreatorContract_def tickersOf_def existingTickers_def)
  show ?thesis
    using ticker_symbols_distinct [of Map.empty "''0xabc''" "[callA, callB, callA]" "''AAA''" io0 None None "Some ''0xh2''"]
          ticker_symbols_distinct [of "addCreatorContracts [callA] Map.empty" "''0xabc''" "[]" "''AAA''" io0 None None "Some ''0xh2''"]
          start present
    by simp
qed

text \<open>
  Claim C10: a call of \<open>addCreatorContract\<close> on an existing creator record that succeeds
  increments the persisted \<open>contracts_created\<close> by exactly 1, also when the ticker is not
  appended because its symbol is already present; the count can therefore strictly exceed the
  length of the ticker list, as it does after the same symbol is recorded twice.
\<close>

theorem contracts_created_incremented:
  "tbl w = Some c \<and> addCreatorContract io w smb n a h tbl = (Some i, tbl') \<longrightarrow>
     (\<exists>c'. tbl' w = Some c' \<and> contracts_created c' = contracts_created c + 1
        \<and> (smb \<in> set (map tk_symbol (existingTickers c)) \<longrightarrow>
             existingTickers c' = existingTickers c
             \<and> (int (length (existingTickers c)) \<le> contracts_created c \<longrightarrow>
                  int (length (existingTickers c')) < contracts_created c')))"
proof (intro impI, elim conjE)
  assume c: "tbl w = Some c"
    and r: "addCreatorContract io w smb n a h tbl = (Some i, tbl')"
  have ok: "\<not> io_selectError io \<and> \<not> io_writeError io"
    using c r by (auto simp add: addCreatorContract_def Let_def split: if_splits)
  define ticker where
    "ticker = \<lparr>tk_symbol = smb, tk_name = n, tk_address = a,
                tk_transaction_hash = h, tk_created_at = io_now io\<rparr>"
  define tickers where
    "tickers = (if \<not> (\<exists>t \<in> set (existingTickers c). tk_symbol t = smb)
                then existingTickers c @ [ticker] else existingTickers c)"
  define c' where
    "c' = c\<lparr>contracts_created := contracts_created c + 1,
            contract_tickers := Some tickers,
            last_contract_at := Some (io_now io)\<rparr>"
  have "tbl' = tbl(w \<mapsto> c')"
    using c r ok by (auto simp add: addCreatorContract_def Let_def c'_def tickers_def ticker_def)
  then have row: "tbl' w = Some c'" by simp
  have count: "contracts_created c' = contracts_created c + 1"
    by (simp add: c'_def)
  have same: "existingTickers c' = existingTickers c"
    if "smb \<in> set (map tk_symbol (existingTickers c))"
  proof -
    from that have "\<exists>t \<in> set (existingTickers c). tk_symbol t = smb" by auto
    then have "tickers = existingTickers c" by (simp add: tickers_def)
    then show ?thesis by (simp add: c'_def existingTickers_def)
  qed
  show "\<exists>c'. tbl' w = Some c' \<and> contracts_created c' = contracts_created c + 1
        \<and> (smb \<in> set (map tk_symbol (existingTickers c)) \<longrightarrow>
             existingTickers c' = existingTickers c
             \<and> (int (length (existingTickers c)) \<le> contracts_created c \<longrightarrow>
                  int (length (existingTickers c')) < contracts_created c'))"
    using row count same by (intro exI [of _ c']) auto
qed

theorem contracts_created_incremented_witness:
  "(let tbl = addCreatorContracts [callA] Map.empty;
        r = addCreatorContract io0 ''0xabc'' ''AAA'' None None (Some ''0xh1'') tbl
    in fst r = Some ''c1''
       \<and> map_option contracts_created (snd r ''0xabc'') = Some 2
       \<and> length (tickersOf (snd r) ''0xabc'') = 1)"
proof -
  define tbl where "tbl = addCreatorContracts [callA] Map.empty"
  define c where "c = \<lparr>creator_id = ''c1'', wallet_address = ''0xabc'', contracts_created = 1,
     contract_tickers = Some [\<lparr>tk_symbol = ''AAA'', tk_name = None, tk_address = None,
        tk_transaction_hash = Some ''0xh1'', tk_created_at = 0\<rparr>],
     first_seen_at = 0, last_contract_at = Some 0\<rparr>"
  define r where "r = addCreatorContract io0 ''0xabc'' ''AAA'' None None (Some ''0xh1'') tbl"
  have row: "tbl ''0xabc'' = Some c"
    by (simp add: tbl_def c_def callA_def io0_def addCreatorContract_def)
  have res: "r = (Some ''c1'', snd r)"
    by (simp add: r_def row addCreatorContract_def io0_def Let_def c_def)
  have present: "''AAA'' \<in> set (map tk_symbol (existingTickers c))"
    by (simp add: c_def existingTickers_def)
  have len: "int (length (existingTickers c)) \<le> contracts_created c"
    by (simp add: c_def existingTickers_def)
  from contracts_created_incremented [of tbl "''0xabc''" c io0 "''AAA''" None None "Some ''0xh1''" "''c1''" "snd r"]
    row res present len
  obtain c' where c': "snd r ''0xabc'' = Some c'" "contracts_created c' = contracts_created c + 1"
      "existingTickers c' = existingTickers c"
    unfolding r_def by auto
  have "fst r = Some ''c1''" using res by (metis fst_conv)
  moreover have "map_option contracts_created (snd r ''0xabc'') = Some 2"
    using c' by (simp add: c_def)
  moreover have "length (tickersOf (snd r) ''0xabc'') = 1"
    using c' by (simp add: tickersOf_def c_def existingTickers_def)
  ultimately show ?thesis by (simp add: Let_def tbl_def r_def)
qed

section \<open>Properties of the dispatcher\<close>

subsection \<open>What each step changes\<close>

lemma loadPostStatus_frame:
  "creators (snd (loadPostStatus env tx s w)) = creators w"
  "profileLookups (snd (loadPostStatus env tx s w)) = profileLookups w"
  "arenaPosts (snd (loadPostStatus env tx s w)) = arenaPosts w"
  "discordPosts (snd (loadPostStatus env tx s w)) = discordPosts w"
  by (simp_all add: loadPostStatus_def Let_def split: option.splits)

lemma saveContractTransaction_row:
  "fst (saveContractTransaction e i tx tbl) = Some tid
     \<Longrightarrow> \<exists>row. snd (saveContractTransaction e i tx tbl) (ct_hash tx) = Some row \<and> row_id row = tid"
  by (auto simp add: saveContractTransaction_def split: option.splits if_splits)

lemma saveContractTransaction_flags:
  "arenaFlag (snd (saveContractTransaction e i tx tbl)) h = arenaFlag tbl h"
  "discordFlag (snd (saveContractTransaction e i tx tbl)) h = discordFlag tbl h"
  by (auto simp add: arenaFlag_def discordFlag_def saveContractTransaction_def
        split: option.splits if_splits)

lemma loadPostStatus_persisted:
  "persistedArena (snd (loadPostStatus env tx s w)) h = persistedArena w h"
  "persistedDiscord (snd (loadPostStatus env tx s w)) h = persistedDiscord w h"
  by (simp_all add: loadPostStatus_def Let_def persistedArena_def persistedDiscord_def
        saveContractTransaction_flags split: option.splits)

lemma loadPostStatus_row:
  "fst (fst (loadPostStatus env tx s w)) = Some tid
     \<Longrightarrow> \<exists>row. contract_transactions (snd (loadPostStatus env tx s w)) (ct_hash tx) = Some row
              \<and> row_id row = tid"
  using saveContractTransaction_row [of "saveTxError env" "newTxId env" tx "contract_transactions w" tid]
  by (auto simp add: loadPostStatus_def Let_def split: option.splits if_splits)

lemma loadPostStatus_sent:
  "fst (snd (fst (loadPostStatus env tx s w)))
     \<longleftrightarrow> \<not> txSelectError env \<and> persistedArena w (ct_hash tx)"
  "snd (snd (fst (loadPostStatus env tx s w)))
     \<longleftrightarrow> \<not> txSelectError env \<and> persistedDiscord w (ct_hash tx)"
  by (auto simp add: loadPostStatus_def Let_def persistedArena_def persistedDiscord_def
        arenaFlag_def discordFlag_def split: option.splits)

lemma loadPostStatus_caches:
  "\<not> fst (snd (fst (loadPostStatus env tx s w)))
     \<Longrightarrow> arenaPostCache (snd (loadPostStatus env tx s w)) = arenaPostCache w"
  "\<not> snd (snd (fst (loadPostStatus env tx s w)))
     \<Longrightarrow> discordPostCache (snd (loadPostStatus env tx s w)) = discordPostCache w"
  by (auto simp add: loadPostStatus_def Let_def split: option.splits)

lemma recordCreation_frame:
  "contract_transactions (snd (recordCreation env tx s md w)) = contract_transactions w"
  "arenaPostCache (snd (recordCreation env tx s md w)) = arenaPostCache w"
  "discordPostCache (snd (recordCreation env tx s md w)) = discordPostCache w"
  "profileLookups (snd (recordCreation env tx s md w)) = profileLookups w"
  "arenaPosts (snd (recordCreation env tx s md w)) = arenaPosts w"
  "discordPosts (snd (recordCreation env tx s md w)) = discordPosts w"
  by (simp_all add: recordCreation_def Let_def)

lemma recordCreation_persisted:
  "persistedArena (snd (recordCreation env tx s md w)) h = persistedArena w h"
  "persistedDiscord (snd (recordCreation env tx s md w)) h = persistedDiscord w h"
  by (simp_all add: persistedArena_def persistedDiscord_def recordCreation_frame)

lemma arenaChannel_frame:
  "creators (arenaChannel env k tid sent pt post w) = creators w"
  "profileLookups (arenaChannel env k tid sent pt post w) = profileLookups w"
  "discordPosts (arenaChannel env k tid sent pt post w) = discordPosts w"
  "discordPostCache (arenaChannel env k tid sent pt post w) = discordPostCache w"
  by (simp_all add: arenaChannel_def Let_def split: option.splits)

lemma discordChannel_frame:
  "creators (discordChannel env k tid sent pt post w) = creators w"
  "profileLookups (discordChannel env k tid sent pt post w) = profileLookups w"
  "arenaPosts (discordChannel env k tid sent pt post w) = arenaPosts w"
  "arenaPostCache (discordChannel env k tid sent pt post w) = arenaPostCache w"
  by (simp_all add: discordChannel_def Let_def split: option.splits)

lemma arenaChannel_posts:
  "arenaPosts (arenaChannel env k tid sent pt post w)
     = (if (pt = ''champion'' \<or> pt = ''heavy-hitter'') \<and> \<not> sent then arenaPosts w @ [post]
        else arenaPosts w)"
  by (simp add: arenaChannel_def Let_def split: option.splits)

lemma discordChannel_posts:
  "discordPosts (discordChannel env k tid sent pt post w)
     = (if \<not> sent then discordPosts w @ [post] else discordPosts w)"
  by (simp add: discordChannel_def Let_def split: option.splits)

lemma arenaChannel_cache:
  "arenaPostCache (arenaChannel env k tid sent pt post w)
     = (if (pt = ''champion'' \<or> pt = ''heavy-hitter'') \<and> \<not> sent
        then (if arenaPosted env then markArenaPostAsSent (env_now env) k pt (arenaPostCache w)
              else arenaPostCache w)
        else if pt = ''regular'' then markArenaPostAsSent (env_now env) k pt (arenaPostCache w)
        else arenaPostCache w)"
  by (simp add: arenaChannel_def Let_def split: option.splits)

lemma discordChannel_cache:
  "discordPostCache (discordChannel env k tid sent pt post w)
     = (if \<not> sent \<and> discordPosted env
        then markDiscordPostAsSent (env_now env) k pt (discordPostCache w)
        else discordPostCache w)"
  by (simp add: discordChannel_def Let_def split: option.splits)

lemma arenaChannel_table:
  "contract_transactions (arenaChannel env k tid sent pt post w)
     = (if (pt = ''champion'' \<or> pt = ''heavy-hitter'') \<and> \<not> sent \<and> arenaPosted env
           \<and> truthy tid \<and> \<not> arenaFlagError env
        then setPostedToArena (the tid) (contract_transactions w)
        else contract_transactions w)"
  by (auto simp add: arenaChannel_def Let_def truthy_def split: option.splits)

lemma discordChannel_table:
  "contract_transactions (discordChannel env k tid sent pt post w)
     = (if \<not> sent \<and> discordPosted env \<and> truthy tid \<and> \<not> discordFlagError env
        then setPostedToDiscord (the tid) (contract_transactions w)
        else contract_transactions w)"
  by (auto simp add: discordChannel_def Let_def truthy_def split: option.splits)

lemma setPosted_other_flag:
  "discordFlag (setPostedToArena tid tbl) h = discordFlag tbl h"
  "arenaFlag (setPostedToDiscord tid tbl) h = arenaFlag tbl h"
  by (cases "tbl h"; simp add: arenaFlag_def discordFlag_def setPostedToArena_def
        setPostedToDiscord_def)+

lemma setPosted_marks:
  "tbl h = Some row \<Longrightarrow> row_id row = tid \<Longrightarrow> arenaFlag (setPostedToArena tid tbl) h"
  "tbl h = Some row \<Longrightarrow> row_id row = tid \<Longrightarrow> discordFlag (setPostedToDiscord tid tbl) h"
  by (simp_all add: arenaFlag_def discordFlag_def setPostedToArena_def setPostedToDiscord_def)

lemma setPosted_row:
  "tbl h = Some row \<Longrightarrow> \<exists>row'. setPostedToArena tid tbl h = Some row' \<and> row_id row' = row_id row"
  "tbl h = Some row \<Longrightarrow> \<exists>row'. setPostedToDiscord tid tbl h = Some row' \<and> row_id row' = row_id row"
  by (simp_all add: setPostedToArena_def setPostedToDiscord_def)

lemmas frames = loadPostStatus_frame recordCreation_frame arenaChannel_frame discordChannel_frame


lemma resolveAndDispatch_arenaPosts:
  "arenaPosts (resolveAndDispatch avax env tx s md cd tid aSent dSent w)
     = (case profileResult env of
          None \<Rightarrow> arenaPosts w
        | Some prof \<Rightarrow>
            if truthy (username prof)
               \<and> (determinePostType avax prof = ''champion''
                    \<or> determinePostType avax prof = ''heavy-hitter'') \<and> \<not> aSent
            then arenaPosts w @
                   [\<lparr>ap_username = the (username prof), ap_tokenSymbol = s,
                     ap_tokenName = tm_name md, ap_contractsCreated = contracts_created cd,
                     ap_isChampion = (isArenaChampion prof = Some True),
                     ap_arenaProfile = prof\<rparr>]
            else arenaPosts w)"
  by (simp add: resolveAndDispatch_def dispatch_def Let_def frames arenaChannel_posts truthy_def
        split: option.splits)

lemma resolveAndDispatch_discordPosts:
  "discordPosts (resolveAndDispatch avax env tx s md cd tid aSent dSent w)
     = (case profileResult env of
          None \<Rightarrow> discordPosts w
        | Some prof \<Rightarrow>
            if truthy (username prof) \<and> \<not> dSent
            then discordPosts w @
                   [\<lparr>dp_username = the (username prof), dp_tokenSymbol = s,
                     dp_tokenName = tm_name md, dp_contractsCreated = contracts_created cd,
                     dp_isChampion = (isArenaChampion prof = Some True),
                     dp_arenaProfile = prof,
                     dp_contractAddress = or_else (tm_tokenAddress md)
                                            (or_undefined (ct_tokenAddress tx))\<rparr>]
            else discordPosts w)"
  by (simp add: resolveAndDispatch_def dispatch_def Let_def frames discordChannel_posts truthy_def
        split: option.splits)

lemma no_arena_call_when_flag_set:
  assumes "persistedArena w (ct_hash tx)" "\<not> txSelectError env"
  shows "arenaPosts (snd (processTokenCreation avax env tx w)) = arenaPosts w"
  using assms
  by (simp add: processTokenCreation_def Let_def loadPostStatus_sent frames
        resolveAndDispatch_arenaPosts split: option.splits)

lemma no_discord_call_when_flag_set:
  assumes "persistedDiscord w (ct_hash tx)" "\<not> txSelectError env"
  shows "discordPosts (snd (processTokenCreation avax env tx w)) = discordPosts w"
  using assms
  by (simp add: processTokenCreation_def Let_def loadPostStatus_sent frames
        resolveAndDispatch_discordPosts split: option.splits)

lemma arena_at_most_one_call:
  "arenaPosts (snd (processTokenCreation avax env tx w)) = arenaPosts w
   \<or> (\<exists>post. arenaPosts (snd (processTokenCreation avax env tx w)) = arenaPosts w @ [post])"
  by (simp add: processTokenCreation_def Let_def frames resolveAndDispatch_arenaPosts
        split: option.splits)

lemma discord_at_most_one_call:
  "discordPosts (snd (processTokenCreation avax env tx w)) = discordPosts w
   \<or> (\<exists>post. discordPosts (snd (processTokenCreation avax env tx w)) = discordPosts w @ [post])"
  by (simp add: processTokenCreation_def Let_def frames resolveAndDispatch_discordPosts
        split: option.splits)


lemma process_world_cases:
  "(\<exists>md s cd prof uname.
       ct_isTokenCreation tx = Some True \<and> ct_tokenMetadata tx = Some md
       \<and> tm_symbol md = Some s \<and> s \<noteq> []
       \<and> profileResult env = Some prof \<and> username prof = Some uname \<and> uname \<noteq> []
       \<and> (let st = loadPostStatus env tx s w;
               w2 = snd (recordCreation env tx s md (snd st))
           in getCreator (getCreatorError env) (ct_from tx) (creators w2) = Some cd
              \<and> contracts_created cd > 1
              \<and> snd (processTokenCreation avax env tx w)
                  = dispatch avax env tx s md cd prof uname (fst (fst st)) (fst (snd (fst st)))
                      (snd (snd (fst st)))
                      (w2\<lparr>profileLookups := profileLookups w2 @ [ct_from tx]\<rparr>)))
   \<or> (arenaPosts (snd (processTokenCreation avax env tx w)) = arenaPosts w
      \<and> discordPosts (snd (processTokenCreation avax env tx w)) = discordPosts w)"
  by (simp add: processTokenCreation_def resolveAndDispatch_def Let_def frames
        split: option.splits)


lemma arenaChannel_flags:
  "discordFlag (contract_transactions (arenaChannel env k tid sent pt post w)) h
     = discordFlag (contract_transactions w) h"
  "arenaFlag (contract_transactions (arenaChannel env k tid sent pt post w)) h
     = (if (pt = ''champion'' \<or> pt = ''heavy-hitter'') \<and> \<not> sent \<and> arenaPosted env
           \<and> truthy tid \<and> \<not> arenaFlagError env
        then arenaFlag (setPostedToArena (the tid) (contract_transactions w)) h
        else arenaFlag (contract_transactions w) h)"
  by (auto simp add: arenaChannel_table setPosted_other_flag)

lemma discordChannel_flags:
  "arenaFlag (contract_transactions (discordChannel env k tid sent pt post w)) h
     = arenaFlag (contract_transactions w) h"
  "discordFlag (contract_transactions (discordChannel env k tid sent pt post w)) h
     = (if \<not> sent \<and> discordPosted env \<and> truthy tid \<and> \<not> discordFlagError env
        then discordFlag (setPostedToDiscord (the tid) (contract_transactions w)) h
        else discordFlag (contract_transactions w) h)"
  by (auto simp add: discordChannel_table setPosted_other_flag)

lemma arenaChannel_row:
  "contract_transactions w h = Some row
     \<Longrightarrow> \<exists>row'. contract_transactions (arenaChannel env k tid sent pt post w) h = Some row'
               \<and> row_id row' = row_id row"
  using setPosted_row(1) [of "contract_transactions w" h row "the tid"]
  by (simp add: arenaChannel_table)

text \<open>The Arena channel inside \<open>dispatch\<close>.\<close>

lemma dispatch_arena_posts:
  "arenaPosts (dispatch avax env tx s md cd prof uname tid aSent dSent w) \<noteq> arenaPosts w
     \<longleftrightarrow> (determinePostType avax prof = ''champion''
           \<or> determinePostType avax prof = ''heavy-hitter'') \<and> \<not> aSent"
  by (simp add: dispatch_def Let_def frames arenaChannel_posts)

lemma dispatch_arena_cache:
  "arenaPosts (dispatch avax env tx s md cd prof uname tid aSent dSent w) \<noteq> arenaPosts w
     \<Longrightarrow> arenaPostCache (dispatch avax env tx s md cd prof uname tid aSent dSent w)
          = (if arenaPosted env
             then markArenaPostAsSent (env_now env)
                    (createArenaPostCacheKey (ct_hash tx) (ct_from tx) s)
                    (determinePostType avax prof) (arenaPostCache w)
             else arenaPostCache w)"
  unfolding dispatch_arena_posts
  by (auto simp add: dispatch_def Let_def frames arenaChannel_cache)

lemma dispatch_arena_flag:
  "arenaPosts (dispatch avax env tx s md cd prof uname tid aSent dSent w) \<noteq> arenaPosts w
     \<Longrightarrow> persistedArena (dispatch avax env tx s md cd prof uname tid aSent dSent w) h
          = (if arenaPosted env \<and> truthy tid \<and> \<not> arenaFlagError env
             then arenaFlag (setPostedToArena (the tid) (contract_transactions w)) h
             else persistedArena w h)"
  unfolding dispatch_arena_posts
  by (auto simp add: dispatch_def Let_def persistedArena_def arenaChannel_flags
        discordChannel_flags)

text \<open>The Discord channel inside \<open>dispatch\<close>.\<close>

lemma dispatch_discord_posts:
  "discordPosts (dispatch avax env tx s md cd prof uname tid aSent dSent w) \<noteq> discordPosts w
     \<longleftrightarrow> \<not> dSent"
  by (simp add: dispatch_def Let_def frames discordChannel_posts)

lemma dispatch_discord_cache:
  "discordPosts (dispatch avax env tx s md cd prof uname tid aSent dSent w) \<noteq> discordPosts w
     \<Longrightarrow> discordPostCache (dispatch avax env tx s md cd prof uname tid aSent dSent w)
          = (if discordPosted env
             then markDiscordPostAsSent (env_now env)
                    (createDiscordPostCacheKey (ct_hash tx) (ct_from tx) s)
                    (determinePostType avax prof) (discordPostCache w)
             else discordPostCache w)"
  unfolding dispatch_discord_posts
  by (auto simp add: dispatch_def Let_def frames discordChannel_cache)

lemma dispatch_discord_flag_failed:
  "\<not> (discordPosted env \<and> truthy tid \<and> \<not> discordFlagError env)
     \<Longrightarrow> persistedDiscord (dispatch avax env tx s md cd prof uname tid aSent dSent w) h
          = persistedDiscord w h"
  by (auto simp add: dispatch_def Let_def persistedDiscord_def arenaChannel_flags
        discordChannel_flags)

lemma dispatch_discord_flag_marked:
  assumes "\<not> dSent" "discordPosted env" "tid = Some t" "t \<noteq> []" "\<not> discordFlagError env"
    and row: "contract_transactions w h = Some row" "row_id row = t"
  shows "persistedDiscord (dispatch avax env tx s md cd prof uname tid aSent dSent w) h"
proof -
  let ?post = "\<lparr>ap_username = uname, ap_tokenSymbol = s, ap_tokenName = tm_name md,
                 ap_contractsCreated = contracts_created cd,
                 ap_isChampion = (isArenaChampion prof = Some True), ap_arenaProfile = prof\<rparr>"
  let ?w1 = "arenaChannel env (createArenaPostCacheKey (ct_hash tx) (ct_from tx) s) tid aSent
               (determinePostType avax prof) ?post w"
  from arenaChannel_row [OF row(1)] row(2)
  obtain row' where r: "contract_transactions ?w1 h = Some row'" "row_id row' = t"
    by metis
  have "discordFlag (setPostedToDiscord t (contract_transactions ?w1)) h"
    using r by (rule setPosted_marks(2))
  then show ?thesis
    using assms(1-5)
    by (simp add: dispatch_def Let_def persistedDiscord_def discordChannel_flags truthy_def)
qed

lemma dispatch_arena_flag_marked:
  assumes call: "arenaPosts (dispatch avax env tx s md cd prof uname tid aSent dSent w) \<noteq> arenaPosts w"
    and "arenaPosted env" "tid = Some t" "t \<noteq> []" "\<not> arenaFlagError env"
    and row: "contract_transactions w h = Some row" "row_id row = t"
  shows "persistedArena (dispatch avax env tx s md cd prof uname tid aSent dSent w) h"
proof -
  have "arenaFlag (setPostedToArena t (contract_transactions w)) h"
    using row by (rule setPosted_marks(1))
  then show ?thesis
    unfolding dispatch_arena_flag [OF call] using assms(2-5) by (simp add: truthy_def)
qed

lemma symbolOf_eq: "ct_tokenMetadata tx = Some md \<Longrightarrow> tm_symbol md = Some s \<Longrightarrow> symbolOf tx = s"
  by (simp add: symbolOf_def)

lemma persisted_lookup_update:
  "persistedArena (w\<lparr>profileLookups := l\<rparr>) h = persistedArena w h"
  "persistedDiscord (w\<lparr>profileLookups := l\<rparr>) h = persistedDiscord w h"
  by (simp_all add: persistedArena_def persistedDiscord_def)

lemma arena_call_outcome:
  assumes call: "arenaPosts (snd (processTokenCreation avax env tx w)) \<noteq> arenaPosts w"
  shows "arenaPosted env \<Longrightarrow>
           cachedPosted (arenaPostCache (snd (processTokenCreation avax env tx w)))
             (createArenaPostCacheKey (ct_hash tx) (ct_from tx) (symbolOf tx))"
    and "arenaPosted env \<Longrightarrow> truthy (transactionIdOf env tx w) \<Longrightarrow> \<not> arenaFlagError env \<Longrightarrow>
           persistedArena (snd (processTokenCreation avax env tx w)) (ct_hash tx)"
    and "\<not> arenaPosted env \<Longrightarrow>
           arenaPostCache (snd (processTokenCreation avax env tx w)) = arenaPostCache w
           \<and> persistedArena (snd (processTokenCreation avax env tx w)) h = persistedArena w h"
proof -
  from process_world_cases [of tx env w avax] call
  obtain md s cd prof uname where
    md: "ct_tokenMetadata tx = Some md" "tm_symbol md = Some s"
    and eq: "snd (processTokenCreation avax env tx w)
        = dispatch avax env tx s md cd prof uname (fst (fst (loadPostStatus env tx s w)))
            (fst (snd (fst (loadPostStatus env tx s w))))
            (snd (snd (fst (loadPostStatus env tx s w))))
            (snd (recordCreation env tx s md (snd (loadPostStatus env tx s w)))
               \<lparr>profileLookups :=
                  profileLookups (snd (recordCreation env tx s md (snd (loadPostStatus env tx s w))))
                    @ [ct_from tx]\<rparr>)"
    unfolding Let_def by blast
  define st where "st = loadPostStatus env tx s w"
  define w3 where "w3 = snd (recordCreation env tx s md (snd st))
               \<lparr>profileLookups := profileLookups (snd (recordCreation env tx s md (snd st)))
                    @ [ct_from tx]\<rparr>"
  have eq': "snd (processTokenCreation avax env tx w)
        = dispatch avax env tx s md cd prof uname (fst (fst st)) (fst (snd (fst st)))
            (snd (snd (fst st))) w3"
    using eq by (simp add: st_def w3_def)
  have sym: "symbolOf tx = s" using md by (rule symbolOf_eq)
  have posts3: "arenaPosts w3 = arenaPosts w"
    by (simp add: w3_def st_def frames)
  have call3: "arenaPosts (dispatch avax env tx s md cd prof uname (fst (fst st))
                 (fst (snd (fst st))) (snd (snd (fst st))) w3) \<noteq> arenaPosts w3"
    using call eq' posts3 by simp
  have notsent: "\<not> fst (snd (fst st))"
    using call3 unfolding dispatch_arena_posts by simp
  have cache3: "arenaPostCache w3 = arenaPostCache w"
    using notsent by (simp add: w3_def st_def frames loadPostStatus_caches)
  have tbl3: "contract_transactions w3 = contract_transactions (snd st)"
    by (simp add: w3_def frames)
  have pers3: "persistedArena w3 h = persistedArena w h" for h
    by (simp add: w3_def persisted_lookup_update recordCreation_persisted st_def
          loadPostStatus_persisted)
  note cache = dispatch_arena_cache [OF call3]
  show "cachedPosted (arenaPostCache (snd (processTokenCreation avax env tx w)))
             (createArenaPostCacheKey (ct_hash tx) (ct_from tx) (symbolOf tx))"
    if "arenaPosted env"
    using that unfolding eq' cache sym
    by (simp add: cachedPosted_def markArenaPostAsSent_def)
  show "persistedArena (snd (processTokenCreation avax env tx w)) (ct_hash tx)"
    if "arenaPosted env" "truthy (transactionIdOf env tx w)" "\<not> arenaFlagError env"
  proof -
    from that(2) obtain t where t: "fst (fst st) = Some t" "t \<noteq> []"
      by (auto simp add: transactionIdOf_def sym st_def truthy_def split: option.splits)
    from loadPostStatus_row [of env tx s w t] t(1)
    obtain row where "contract_transactions (snd st) (ct_hash tx) = Some row" "row_id row = t"
      by (auto simp add: st_def)
    then have row: "contract_transactions w3 (ct_hash tx) = Some row" "row_id row = t"
      by (simp_all add: tbl3)
    show ?thesis
      unfolding eq'
      by (rule dispatch_arena_flag_marked [OF call3 that(1) t(1) t(2) that(3) row])
  qed
  show "arenaPostCache (snd (processTokenCreation avax env tx w)) = arenaPostCache w
           \<and> persistedArena (snd (processTokenCreation avax env tx w)) h = persistedArena w h"
    if "\<not> arenaPosted env"
    using that unfolding eq' cache dispatch_arena_flag [OF call3]
    by (simp add: cache3 pers3)
qed

lemma discord_call_outcome:
  assumes call: "discordPosts (snd (processTokenCreation avax env tx w)) \<noteq> discordPosts w"
  shows "discordPosted env \<Longrightarrow>
           cachedPosted (discordPostCache (snd (processTokenCreation avax env tx w)))
             (createDiscordPostCacheKey (ct_hash tx) (ct_from tx) (symbolOf tx))"
    and "discordPosted env \<Longrightarrow> truthy (transactionIdOf env tx w) \<Longrightarrow> \<not> discordFlagError env \<Longrightarrow>
           persistedDiscord (snd (processTokenCreation avax env tx w)) (ct_hash tx)"
    and "\<not> discordPosted env \<Longrightarrow>
           discordPostCache (snd (processTokenCreation avax env tx w)) = discordPostCache w
           \<and> persistedDiscord (snd (processTokenCreation avax env tx w)) h = persistedDiscord w h"
proof -
  from process_world_cases [of tx env w avax] call
  obtain md s cd prof uname where
    md: "ct_tokenMetadata tx = Some md" "tm_symbol md = Some s"
    and eq: "snd (processTokenCreation avax env tx w)
        = dispatch avax env tx s md cd prof uname (fst (fst (loadPostStatus env tx s w)))
            (fst (snd (fst (loadPostStatus env tx s w))))
            (snd (snd (fst (loadPostStatus env tx s w))))
            (snd (recordCreation env tx s md (snd (loadPostStatus env tx s w)))
               \<lparr>profileLookups :=
                  profileLookups (snd (recordCreation env tx s md (snd (loadPostStatus env tx s w))))
                    @ [ct_from tx]\<rparr>)"
    unfolding Let_def by blast
  define st where "st = loadPostStatus env tx s w"
  define w3 where "w3 = snd (recordCreation env tx s md (snd st))
               \<lparr>profileLookups := profileLookups (snd (recordCreation env tx s md (snd st)))
                    @ [ct_from tx]\<rparr>"
  have eq': "snd (processTokenCreation avax env tx w)
        = dispatch avax env tx s md cd prof uname (fst (fst st)) (fst (snd (fst st)))
            (snd (snd (fst st))) w3"
    using eq by (simp add: st_def w3_def)
  have sym: "symbolOf tx = s" using md by (rule symbolOf_eq)
  have posts3: "discordPosts w3 = discordPosts w"
    by (simp add: w3_def st_def frames)
  have call3: "discordPosts (dispatch avax env tx s md cd prof uname (fst (fst st))
                 (fst (snd (fst st))) (snd (snd (fst st))) w3) \<noteq> discordPosts w3"
    using call eq' posts3 by simp
  have notsent: "\<not> snd (snd (fst st))"
    using call3 unfolding dispatch_discord_posts by simp
  have cache3: "discordPostCache w3 = discordPostCache w"
    using notsent by (simp add: w3_def st_def frames loadPostStatus_caches)
  have tbl3: "contract_transactions w3 = contract_transactions (snd st)"
    by (simp add: w3_def frames)
  have pers3: "persistedDiscord w3 h = persistedDiscord w h" for h
    by (simp add: w3_def persisted_lookup_update recordCreation_persisted st_def
          loadPostStatus_persisted)
  note cache = dispatch_discord_cache [OF call3]
  show "cachedPosted (discordPostCache (snd (processTokenCreation avax env tx w)))
             (createDiscordPostCacheKey (ct_hash tx) (ct_from tx) (symbolOf tx))"
    if "discordPosted env"
    using that unfolding eq' cache sym
    by (simp add: cachedPosted_def markDiscordPostAsSent_def)
  show "persistedDiscord (snd (processTokenCreation avax env tx w)) (ct_hash tx)"
    if "discordPosted env" "truthy (transactionIdOf env tx w)" "\<not> discordFlagError env"
  proof -
    from that(2) obtain t where t: "fst (fst st) = Some t" "t \<noteq> []"
      by (auto simp add: transactionIdOf_def sym st_def truthy_def split: option.splits)
    from loadPostStatus_row [of env tx s w t] t(1)
    obtain row where "contract_transactions (snd st) (ct_hash tx) = Some row" "row_id row = t"
      by (auto simp add: st_def)
    then have row: "contract_transactions w3 (ct_hash tx) = Some row" "row_id row = t"
      by (simp_all add: tbl3)
    show ?thesis
      unfolding eq'
      by (rule dispatch_discord_flag_marked [OF notsent that(1) t(1) t(2) that(3) row])
  qed
  show "discordPostCache (snd (processTokenCreation avax env tx w)) = discordPostCache w
           \<and> persistedDiscord (snd (processTokenCreation avax env tx w)) h = persistedDiscord w h"
    if "\<not> discordPosted env"
    using that unfolding eq' cache
    by (simp add: cache3 pers3 dispatch_discord_flag_failed)
qed

text \<open>
  Claim C1, as stated, fails for the second sentence. The token list of the user interface
  passes the event without a timestamp; saving the transaction then fails, no transaction id
  is known, and the update of the persisted flag is skipped by the guard on the id. The post
  to each channel succeeds and the cache entry is marked, but the persisted flag is not.
\<close>

theorem persisted_flag_not_marked_counterexample:
  "ct_isTokenCreation listedEvent = Some True
   \<and> arenaPosts oneTokenWorld = []
   \<and> length (arenaPosts afterListed) = 1
   \<and> arenaPosted goodEnv
   \<and> cachedPosted (arenaPostCache afterListed) (createArenaPostCacheKey ''0xc2'' ''0xabc'' ''SEC'')
   \<and> \<not> persistedArena afterListed ''0xc2''
   \<and> length (discordPosts afterListed) = 1
   \<and> discordPosted goodEnv
   \<and> \<not> persistedDiscord afterListed ''0xc2''"
  by code_simp

text \<open>
  Claim C1, amended. For a creation event and each of the two channels: an invocation of
  \<open>processTokenCreation\<close> makes at most one outbound call to the channel. When the call is
  made and succeeds, the in-process cache entry for the idempotency key is marked posted,
  and the persisted flag is marked posted provided the transaction id is known and the
  update of the flag does not fail. When the call is made and fails, the cache and the
  persisted flag are left as they were. When the first invocation's post succeeded and the
  persisted flag is marked, a second invocation for the same transaction hash that can read
  the transaction record makes no outbound call to the channel, so across both invocations
  exactly one call is made.
\<close>

theorem at_most_once_dispatch:
  "(let w1 = snd (processTokenCreation avax env1 tx w0);
        w2 = snd (processTokenCreation avax env2 tx2 w1);
        h = ct_hash tx;
        arenaKey = createArenaPostCacheKey h (ct_from tx) (symbolOf tx);
        discordKey = createDiscordPostCacheKey h (ct_from tx) (symbolOf tx);
        transactionId = transactionIdOf env1 tx w0
    in (arenaPosts w1 \<noteq> arenaPosts w0 \<longrightarrow>
          (\<exists>post. arenaPosts w1 = arenaPosts w0 @ [post])
          \<and> (arenaPosted env1 \<longrightarrow>
                cachedPosted (arenaPostCache w1) arenaKey
                \<and> (truthy transactionId \<and> \<not> arenaFlagError env1 \<longrightarrow> persistedArena w1 h))
          \<and> (\<not> arenaPosted env1 \<longrightarrow>
                arenaPostCache w1 = arenaPostCache w0
                \<and> persistedArena w1 h = persistedArena w0 h)
          \<and> (arenaPosted env1 \<and> persistedArena w1 h \<and> ct_hash tx2 = h \<and> \<not> txSelectError env2
               \<longrightarrow> arenaPosts w2 = arenaPosts w1))
     \<and> (discordPosts w1 \<noteq> discordPosts w0 \<longrightarrow>
          (\<exists>post. discordPosts w1 = discordPosts w0 @ [post])
          \<and> (discordPosted env1 \<longrightarrow>
                cachedPosted (discordPostCache w1) discordKey
                \<and> (truthy transactionId \<and> \<not> discordFlagError env1 \<longrightarrow> persistedDiscord w1 h))
          \<and> (\<not> discordPosted env1 \<longrightarrow>
                discordPostCache w1 = discordPostCache w0
                \<and> persistedDiscord w1 h = persistedDiscord w0 h)
          \<and> (discordPosted env1 \<and> persistedDiscord w1 h \<and> ct_hash tx2 = h \<and> \<not> txSelectError env2
               \<longrightarrow> discordPosts w2 = discordPosts w1)))"
proof -
  define w1 where "w1 = snd (processTokenCreation avax env1 tx w0)"
  have arena: "(\<exists>post. arenaPosts w1 = arenaPosts w0 @ [post])
          \<and> (arenaPosted env1 \<longrightarrow>
                cachedPosted (arenaPostCache w1)
                  (createArenaPostCacheKey (ct_hash tx) (ct_from tx) (symbolOf tx))
                \<and> (truthy (transactionIdOf env1 tx w0) \<and> \<not> arenaFlagError env1
                      \<longrightarrow> persistedArena w1 (ct_hash tx)))
          \<and> (\<not> arenaPosted env1 \<longrightarrow>
                arenaPostCache w1 = arenaPostCache w0
                \<and> persistedArena w1 (ct_hash tx) = persistedArena w0 (ct_hash tx))"
    if call: "arenaPosts w1 \<noteq> arenaPosts w0"
    using arena_at_most_one_call [of avax env1 tx w0]
          arena_call_outcome [OF call [unfolded w1_def]] call
    unfolding w1_def by blast
  have arena2: "arenaPosts (snd (processTokenCreation avax env2 tx2 w1)) = arenaPosts w1"
    if "persistedArena w1 (ct_hash tx)" "ct_hash tx2 = ct_hash tx" "\<not> txSelectError env2"
    using that no_arena_call_when_flag_set [of w1 tx2 env2 avax] by simp
  have discord: "(\<exists>post. discordPosts w1 = discordPosts w0 @ [post])
          \<and> (discordPosted env1 \<longrightarrow>
                cachedPosted (discordPostCache w1)
                  (createDiscordPostCacheKey (ct_hash tx) (ct_from tx) (symbolOf tx))
                \<and> (truthy (transactionIdOf env1 tx w0) \<and> \<not> discordFlagError env1
                      \<longrightarrow> persistedDiscord w1 (ct_hash tx)))
          \<and> (\<not> discordPosted env1 \<longrightarrow>
                discordPostCache w1 = discordPostCache w0
                \<and> persistedDiscord w1 (ct_hash tx) = persistedDiscord w0 (ct_hash tx))"
    if call: "discordPosts w1 \<noteq> discordPosts w0"
    using discord_at_most_one_call [of avax env1 tx w0]
          discord_call_outcome [OF call [unfolded w1_def]] call
    unfolding w1_def by blast
  have discord2: "discordPosts (snd (processTokenCreation avax env2 tx2 w1)) = discordPosts w1"
    if "persistedDiscord w1 (ct_hash tx)" "ct_hash tx2 = ct_hash tx" "\<not> txSelectError env2"
    using that no_discord_call_when_flag_set [of w1 tx2 env2 avax] by simp
  show ?thesis
    unfolding Let_def w1_def [symmetric]
    using arena arena2 discord discord2 by blast
qed

theorem at_most_once_dispatch_witness:
  "(let w1 = snd (processTokenCreation exampleAvax goodEnv polledEvent oneTokenWorld);
        w2 = snd (processTokenCreation exampleAvax laterEnv polledEvent w1);
        f1 = snd (processTokenCreation exampleAvax failingEnv polledEvent oneTokenWorld)
    in length (arenaPosts w1) = 1 \<and> length (discordPosts w1) = 1
       \<and> persistedArena w1 ''0xc2'' \<and> persistedDiscord w1 ''0xc2''
       \<and> arenaPosts w2 = arenaPosts w1 \<and> discordPosts w2 = discordPosts w1
       \<and> length (arenaPosts f1) = 1
       \<and> arenaPostCache f1 = arenaPostCache oneTokenWorld
       \<and> \<not> persistedArena f1 ''0xc2'')"
proof -
  define w1 where "w1 = snd (processTokenCreation exampleAvax goodEnv polledEvent oneTokenWorld)"
  define f1 where "f1 = snd (processTokenCreation exampleAvax failingEnv polledEvent oneTokenWorld)"
  have calls: "arenaPosts w1 \<noteq> arenaPosts oneTokenWorld" "discordPosts w1 \<noteq> discordPosts oneTokenWorld"
    unfolding w1_def by code_simp+
  have lens: "length (arenaPosts w1) = 1" "length (discordPosts w1) = 1"
    unfolding w1_def by code_simp+
  have env: "arenaPosted goodEnv" "discordPosted goodEnv" "\<not> arenaFlagError goodEnv"
    "\<not> discordFlagError goodEnv" "\<not> txSelectError laterEnv"
    "truthy (transactionIdOf goodEnv polledEvent oneTokenWorld)"
    by code_simp+
  have h: "ct_hash polledEvent = ''0xc2''" by code_simp
  have fcall: "arenaPosts f1 \<noteq> arenaPosts oneTokenWorld" "length (arenaPosts f1) = 1"
    "\<not> arenaPosted failingEnv" "\<not> persistedArena oneTokenWorld ''0xc2''"
    unfolding f1_def by code_simp+
  note t1 = at_most_once_dispatch
      [where avax = exampleAvax and ?env1.0 = goodEnv and tx = polledEvent
         and ?w0.0 = oneTokenWorld and ?env2.0 = laterEnv and ?tx2.0 = polledEvent]
  note t2 = at_most_once_dispatch
      [where avax = exampleAvax and ?env1.0 = failingEnv and tx = polledEvent
         and ?w0.0 = oneTokenWorld and ?env2.0 = laterEnv and ?tx2.0 = polledEvent]
  have p1: "persistedArena w1 ''0xc2''" "persistedDiscord w1 ''0xc2''"
    using t1 calls env unfolding Let_def w1_def [symmetric] h by blast+
  have again: "arenaPosts (snd (processTokenCreation exampleAvax laterEnv polledEvent w1)) = arenaPosts w1"
    "discordPosts (snd (processTokenCreation exampleAvax laterEnv polledEvent w1)) = discordPosts w1"
    using t1 calls env p1 unfolding Let_def w1_def [symmetric] h by blast+
  have failed: "arenaPostCache f1 = arenaPostCache oneTokenWorld" "\<not> persistedArena f1 ''0xc2''"
    using t2 fcall unfolding Let_def f1_def [symmetric] h by blast+
  show ?thesis
    unfolding Let_def w1_def [symmetric] f1_def [symmetric]
    using lens p1 again fcall(2) failed by blast
qed

text \<open>
  Claim C5 at a failing input. The polled event is processed once by a store whose updates
  of the posted flags fail: each post succeeds and its cache entry is marked, the persisted
  flags stay unset. When the event is processed again, \<open>wasArenaPostAlreadySent\<close> and
  \<open>wasDiscordPostAlreadySent\<close> answer that the post was already sent, but
  \<open>processTokenCreation\<close> never asks them: it posts to each channel a second time.
\<close>

theorem post_cache_not_consulted:
  "length (arenaPosts afterFlagLost) = 1
   \<and> fst (wasArenaPostAlreadySent (env_now laterEnv)
            (createArenaPostCacheKey ''0xc2'' ''0xabc'' ''SEC'') (arenaPostCache afterFlagLost))
   \<and> length (arenaPosts (snd (processTokenCreation exampleAvax laterEnv polledEvent afterFlagLost))) = 2
   \<and> length (discordPosts afterFlagLost) = 1
   \<and> fst (wasDiscordPostAlreadySent (env_now laterEnv)
            (createDiscordPostCacheKey ''0xc2'' ''0xabc'' ''SEC'') (discordPostCache afterFlagLost))
   \<and> length (discordPosts (snd (processTokenCreation exampleAvax laterEnv polledEvent afterFlagLost))) = 2"
  by code_simp











text \<open>
  The poller notifies the subscribers twice for a token creation, before and after the
  profile is fetched, and each notification hands the event to \<open>processTokenCreation\<close>.
  Processing the same event a second time counts the creation again.
\<close>

lemma token_creation_notified_twice:
  "ct_isTokenCreation ev = Some True \<Longrightarrow>
     ProcessTokenCreation ev \<in> set (notifyCallbacks callbacks ev)
     \<and> (\<exists>ev'. profileFetched arenaProfile address ev = [NotifyCallbacks ev']
              \<and> ProcessTokenCreation ev' \<in> set (notifyCallbacks callbacks ev'))"
  by (simp add: notifyCallbacks_def profileFetched_def)

lemma first_token_processed_twice:
  "map_option contracts_created
     (creators (snd (processTokenCreation exampleAvax goodEnv polledEvent
                  (snd (processTokenCreation exampleAvax goodEnv polledEvent emptyWorld)))) ''0xabc'')
     = Some 2
   \<and> length (discordPosts (snd (processTokenCreation exampleAvax goodEnv polledEvent
                  (snd (processTokenCreation exampleAvax goodEnv polledEvent emptyWorld))))) = 1"
  by code_simp
end
